theory Spec2Isabelle
  imports Complex_Main "HOL-Library.Sublist" "HOL-Library.AList"
begin

section \<open>Strings\<close>

text \<open>
  A JavaScript string is a sequence of UTF-16 code units. It is modelled as a list of
  natural numbers below 65536; \<open>js\<close> turns an ASCII literal into such a list.
  Plain objects used as dictionaries (\<open>labelToModel\<close>, \<open>confidenceScores\<close>,
  \<open>positionsByLabel\<close>, \<open>positionMatrix\<close>, \<open>variances\<close>) are association lists in
  insertion order, written with \<open>AList.update\<close> (an existing key keeps its place, a new
  key goes to the end) and read with \<open>map_of\<close>. This is the behaviour of own string
  keys; the keys of this program are labels of the form \<open>Response X\<close>, which are neither
  array indices nor names of members of \<open>Object.prototype\<close>.
  Numbers are IEEE doubles, see the section on numbers below.
\<close>

type_synonym jsstring = "nat list"

definition js :: "string \<Rightarrow> jsstring" where
  "js s = map of_char s"

text \<open>\<open>String.fromCharCode(n)\<close>: one code unit, the number taken modulo \<open>2^16\<close>.\<close>

definition fromCharCode :: "nat \<Rightarrow> jsstring" where
  "fromCharCode n = [n mod 65536]"

text \<open>\<open>s.includes(m)\<close>: \<open>m\<close> occurs in \<open>s\<close> as a contiguous block.\<close>

fun str_includes :: "jsstring \<Rightarrow> jsstring \<Rightarrow> bool" where
  "str_includes [] m = (m = [])"
| "str_includes (c # cs) m = (prefix m (c # cs) \<or> str_includes cs m)"

text \<open>
  \<open>s.split(sep)\<close>: the pieces between the occurrences of \<open>sep\<close>, found from left to
  right without overlap; the empty separator splits into single code units.
\<close>

function str_split :: "jsstring \<Rightarrow> jsstring \<Rightarrow> jsstring list" where
  "str_split [] s = map (\<lambda>c. [c]) s"
| "str_split (d # ds) [] = [[]]"
| "str_split (d # ds) (c # cs) =
     (if prefix (d # ds) (c # cs) then [] # str_split (d # ds) (drop (length ds) cs)
      else (case str_split (d # ds) cs of [] \<Rightarrow> [[c]] | p # ps \<Rightarrow> (c # p) # ps))"
  by pat_completeness auto
termination
  by (relation "measure (\<lambda>(sep, s). length s)") auto

text \<open>\<open>parts.join(sep)\<close>.\<close>

fun str_join :: "jsstring \<Rightarrow> jsstring list \<Rightarrow> jsstring" where
  "str_join sep [] = []"
| "str_join sep [p] = p"
| "str_join sep (p # q # ps) = p @ sep @ str_join sep (q # ps)"

text \<open>
  \<open>toUpperCase\<close> and \<open>toLowerCase\<close> on code units. The ASCII letters are mapped as
  JavaScript maps them. \<open>toUpperCase\<close> is only applied to a match of
  \<open>HIGH|MEDIUM|LOW\<close>, which consists of ASCII letters. \<open>toLowerCase\<close> is applied to
  whole replies, and its result is only searched for ASCII words: above ASCII the two
  code units whose lower-case form contains an ASCII letter are mapped (U+0130 and
  U+212A), and every other unit is kept.
\<close>

definition upper_unit :: "nat \<Rightarrow> nat" where
  "upper_unit c = (if 97 \<le> c \<and> c \<le> 122 then c - 32 else c)"

definition toUpperCase :: "jsstring \<Rightarrow> jsstring" where
  "toUpperCase s = map upper_unit s"

definition lower_unit :: "nat \<Rightarrow> jsstring" where
  "lower_unit c =
     (if 65 \<le> c \<and> c \<le> 90 then [c + 32]
      else if c = 304 then [105, 775]
      else if c = 8490 then [107]
      else [c])"

definition toLowerCase :: "jsstring \<Rightarrow> jsstring" where
  "toLowerCase s = concat (map lower_unit s)"

text \<open>Decimal notation of a natural number, as a template literal prints it.\<close>

function show_nat :: "nat \<Rightarrow> jsstring" where
  "show_nat n = (if n < 10 then [48 + n] else show_nat (n div 10) @ [48 + n mod 10])"
  by pat_completeness auto
termination
  by (relation "measure id") auto

declare show_nat.simps [simp del]

section \<open>Numbers\<close>

text \<open>
  A JavaScript number is an IEEE 754 double. A finite double is modelled as the real
  number it stands for, the two infinities and \<open>NaN\<close> as values of their own. The two
  zeros are one value: the program never divides by a zero that it has computed, except
  in \<open>0 / 0\<close>, and never inspects the sign of a zero.

  \<open>fl x\<close> is the double nearest to the real \<open>x\<close> (round to nearest, ties to the even
  significand): \<open>exponent x\<close> is the binary exponent of \<open>x\<close>, \<open>ulp x\<close> the distance of
  neighbouring doubles there (with the fixed distance of the subnormal doubles below
  \<open>2^-1022\<close>), and \<open>rne\<close> rounds to the nearest integer, a half to the even one. A result
  that rounds to \<open>2^1024\<close> or beyond overflows to an infinity.
\<close>

datatype jsnum = Fin real | PInf | NInf | NaN

function expo_up :: "real \<Rightarrow> int" where
  "expo_up x = (if x < 2 then 0 else 1 + expo_up (x / 2))"
  by pat_completeness auto
termination
proof (relation "measure (\<lambda>x. nat \<lfloor>x\<rfloor>)")
  show "wf (measure (\<lambda>x::real. nat \<lfloor>x\<rfloor>))"
    by simp
next
  fix x :: real
  assume "\<not> x < 2"
  then have one: "1 \<le> real_of_int \<lfloor>x\<rfloor>"
    by (simp add: le_floor_iff)
  have "x - 1 < real_of_int \<lfloor>x\<rfloor>"
    by linarith
  then have "x / 2 < real_of_int \<lfloor>x\<rfloor>"
    using one by linarith
  then have "\<lfloor>x / 2\<rfloor> < \<lfloor>x\<rfloor>"
    by (simp add: floor_less_iff)
  then show "(x / 2, x) \<in> measure (\<lambda>x. nat \<lfloor>x\<rfloor>)"
    using one by simp
qed

function expo_down :: "real \<Rightarrow> int" where
  "expo_down x = (if x \<le> 0 \<or> 1 \<le> x then 0 else expo_down (2 * x) - 1)"
  by pat_completeness auto
termination
proof (relation "measure (\<lambda>x. nat \<lfloor>1 / x\<rfloor>)")
  show "wf (measure (\<lambda>x::real. nat \<lfloor>1 / x\<rfloor>))"
    by simp
next
  fix x :: real
  assume "\<not> (x \<le> 0 \<or> 1 \<le> x)"
  then have "1 \<le> 1 / x"
    by simp
  define t where "t = 1 / x"
  have one: "1 \<le> real_of_int \<lfloor>t\<rfloor>"
    using \<open>1 \<le> 1 / x\<close> by (simp add: le_floor_iff t_def)
  have "t - 1 < real_of_int \<lfloor>t\<rfloor>"
    by linarith
  then have "t / 2 < real_of_int \<lfloor>t\<rfloor>"
    using one by linarith
  then have "\<lfloor>t / 2\<rfloor> < \<lfloor>t\<rfloor>"
    by (simp add: floor_less_iff)
  moreover have "t / 2 = 1 / (2 * x)"
    by (simp add: t_def)
  ultimately show "(2 * x, x) \<in> measure (\<lambda>x. nat \<lfloor>1 / x\<rfloor>)"
    using one by (simp add: t_def mult.commute)
qed

declare expo_up.simps [simp del] expo_down.simps [simp del]

definition exponent :: "real \<Rightarrow> int" where
  "exponent x = (if 1 \<le> \<bar>x\<bar> then expo_up \<bar>x\<bar> else expo_down \<bar>x\<bar>)"

definition pow2 :: "int \<Rightarrow> real" where
  "pow2 k = (if 0 \<le> k then 2 ^ nat k else 1 / 2 ^ nat (- k))"

definition ulp :: "real \<Rightarrow> real" where
  "ulp x = pow2 (max (exponent x) (- 1022) - 52)"

definition rne :: "real \<Rightarrow> int" where
  "rne y =
     (let f = \<lfloor>y\<rfloor>; d = y - of_int f
      in if d < 1 / 2 then f else if 1 / 2 < d then f + 1 else if even f then f else f + 1)"

definition fl :: "real \<Rightarrow> real" where
  "fl x = of_int (rne (x / ulp x)) * ulp x"

text \<open>The double that an operation with the exact result \<open>r\<close> returns.\<close>

definition js_num :: "real \<Rightarrow> jsnum" where
  "js_num r = (if pow2 1024 \<le> \<bar>fl r\<bar> then (if 0 < r then PInf else NInf) else Fin (fl r))"

definition inf_of :: "bool \<Rightarrow> jsnum" where
  "inf_of positive = (if positive then PInf else NInf)"

fun js_neg :: "jsnum \<Rightarrow> jsnum" where
  "js_neg (Fin a) = Fin (- a)"
| "js_neg PInf = NInf"
| "js_neg NInf = PInf"
| "js_neg NaN = NaN"

fun js_add :: "jsnum \<Rightarrow> jsnum \<Rightarrow> jsnum" where
  "js_add (Fin a) (Fin b) = js_num (a + b)"
| "js_add NaN y = NaN"
| "js_add x NaN = NaN"
| "js_add PInf NInf = NaN"
| "js_add NInf PInf = NaN"
| "js_add PInf y = PInf"
| "js_add NInf y = NInf"
| "js_add x PInf = PInf"
| "js_add x NInf = NInf"

definition js_sub :: "jsnum \<Rightarrow> jsnum \<Rightarrow> jsnum" where
  "js_sub x y = js_add x (js_neg y)"

fun js_mul :: "jsnum \<Rightarrow> jsnum \<Rightarrow> jsnum" where
  "js_mul (Fin a) (Fin b) = js_num (a * b)"
| "js_mul NaN y = NaN"
| "js_mul x NaN = NaN"
| "js_mul (Fin a) PInf = (if a = 0 then NaN else inf_of (0 < a))"
| "js_mul (Fin a) NInf = (if a = 0 then NaN else inf_of (a < 0))"
| "js_mul PInf (Fin b) = (if b = 0 then NaN else inf_of (0 < b))"
| "js_mul NInf (Fin b) = (if b = 0 then NaN else inf_of (b < 0))"
| "js_mul PInf PInf = PInf"
| "js_mul NInf NInf = PInf"
| "js_mul PInf NInf = NInf"
| "js_mul NInf PInf = NInf"

text \<open>Division; a zero divisor is taken to be the positive zero.\<close>

fun js_div :: "jsnum \<Rightarrow> jsnum \<Rightarrow> jsnum" where
  "js_div (Fin a) (Fin b) =
     (if b = 0 then (if a = 0 then NaN else inf_of (0 < a)) else js_num (a / b))"
| "js_div NaN y = NaN"
| "js_div x NaN = NaN"
| "js_div (Fin a) y = Fin 0"
| "js_div PInf (Fin b) = inf_of (0 \<le> b)"
| "js_div NInf (Fin b) = inf_of (b < 0)"
| "js_div x y = NaN"

text \<open>\<open>x > y\<close>.\<close>

fun js_gt :: "jsnum \<Rightarrow> jsnum \<Rightarrow> bool" where
  "js_gt (Fin a) (Fin b) = (b < a)"
| "js_gt NaN y = False"
| "js_gt x NaN = False"
| "js_gt PInf PInf = False"
| "js_gt PInf y = True"
| "js_gt x NInf = (x \<noteq> NInf)"
| "js_gt x y = False"

text \<open>A number in a condition: zero and \<open>NaN\<close> count as false.\<close>

fun js_truthy :: "jsnum \<Rightarrow> bool" where
  "js_truthy (Fin a) = (a \<noteq> 0)"
| "js_truthy NaN = False"
| "js_truthy x = True"

text \<open>\<open>Math.round\<close>: the nearest integer, a half upwards; exact on every finite double.\<close>

fun js_round :: "jsnum \<Rightarrow> jsnum" where
  "js_round (Fin a) = Fin (of_int \<lfloor>a + 1 / 2\<rfloor>)"
| "js_round x = x"

text \<open>\<open>Math.max(0, x)\<close>.\<close>

fun js_max0 :: "jsnum \<Rightarrow> jsnum" where
  "js_max0 (Fin a) = Fin (max 0 a)"
| "js_max0 NInf = Fin 0"
| "js_max0 x = x"

text \<open>\<open>Math.sqrt\<close>, correctly rounded.\<close>

fun js_sqrt :: "jsnum \<Rightarrow> jsnum" where
  "js_sqrt (Fin a) = (if a < 0 then NaN else Fin (fl (sqrt a)))"
| "js_sqrt PInf = PInf"
| "js_sqrt x = NaN"

text \<open>
  \<open>Math.pow(x, 2)\<close>. The language leaves the precision of \<open>Math.pow\<close> to the engine; the
  engines return the rounded product \<open>x * x\<close> for the exponent 2.
\<close>

definition js_pow2 :: "jsnum \<Rightarrow> jsnum" where
  "js_pow2 x = js_mul x x"

text \<open>\<open>Math.round(x * 100) / 100\<close>.\<close>

definition js_round2 :: "jsnum \<Rightarrow> jsnum" where
  "js_round2 x = js_div (js_round (js_mul x (Fin 100))) (Fin 100)"

text \<open>
  An array index or length: an integer below \<open>2^32\<close>, which is a double.
\<close>

definition js_nat :: "nat \<Rightarrow> jsnum" where
  "js_nat n = Fin (real n)"

text \<open>
  \<open>xs.sort(compare)\<close> for a comparison that says whether its first argument has to come
  after the second: a stable insertion sort. (Where the comparison is not an order, as it
  can be with \<open>NaN\<close>, the engines may differ from it.)
\<close>

fun js_insort :: "('a \<Rightarrow> 'a \<Rightarrow> bool) \<Rightarrow> 'a \<Rightarrow> 'a list \<Rightarrow> 'a list" where
  "js_insort after x [] = [x]"
| "js_insort after x (y # ys) = (if after x y then y # js_insort after x ys else x # y # ys)"

definition js_sort :: "('a \<Rightarrow> 'a \<Rightarrow> bool) \<Rightarrow> 'a list \<Rightarrow> 'a list" where
  "js_sort after xs = foldr (js_insort after) xs []"

section \<open>Regular expressions\<close>

text \<open>
  The patterns of the parser are built from single code units, classes, sequence,
  alternation and the greedy quantifiers. \<open>rmatch i r s\<close> lists, in the order in which a
  backtracking matcher tries them, the remainders of \<open>s\<close> after a match of \<open>r\<close> at the
  start of \<open>s\<close>; the head of the list is the match JavaScript reports. The flag \<open>i\<close> is
  the \<open>ignoreCase\<close> flag: without the \<open>u\<close> flag a code unit is canonicalised by upper-casing
  it, and a unit above ASCII never canonicalises to an ASCII unit.
\<close>

datatype atom = Chr nat | Rng nat nat | NotChr nat | Digit | Space

datatype regex =
    Atom atom
  | Empty
  | Seq regex regex
  | Alt regex regex
  | Opt regex
  | Star regex

definition is_space :: "nat \<Rightarrow> bool" where
  "is_space c \<longleftrightarrow>
     c \<in> set [9, 10, 11, 12, 13, 32, 160, 5760, 8232, 8233, 8239, 8287, 12288, 65279]
     \<or> (8192 \<le> c \<and> c \<le> 8202)"

fun atom_ok :: "bool \<Rightarrow> atom \<Rightarrow> nat \<Rightarrow> bool" where
  "atom_ok i (Chr k) c = (if i then upper_unit c = upper_unit k else c = k)"
| "atom_ok i (Rng lo hi) c =
     ((lo \<le> c \<and> c \<le> hi)
      \<or> (i \<and> 97 \<le> c \<and> c \<le> 122 \<and> lo \<le> c - 32 \<and> c - 32 \<le> hi)
      \<or> (i \<and> 65 \<le> c \<and> c \<le> 90 \<and> lo \<le> c + 32 \<and> c + 32 \<le> hi))"
| "atom_ok i (NotChr k) c = (if i then upper_unit c \<noteq> upper_unit k else c \<noteq> k)"
| "atom_ok i Digit c = (48 \<le> c \<and> c \<le> 57)"
| "atom_ok i Space c = is_space c"

fun rmatch :: "bool \<Rightarrow> regex \<Rightarrow> jsstring \<Rightarrow> jsstring list" where
  "rmatch i (Atom a) [] = []"
| "rmatch i (Atom a) (c # cs) = (if atom_ok i a c then [cs] else [])"
| "rmatch i Empty s = [s]"
| "rmatch i (Seq r1 r2) s = concat (map (rmatch i r2) (rmatch i r1 s))"
| "rmatch i (Alt r1 r2) s = rmatch i r1 s @ rmatch i r2 s"
| "rmatch i (Opt r) s = rmatch i r s @ [s]"
| "rmatch i (Star r) s =
     concat (map (\<lambda>s'. if length s' < length s then rmatch i (Star r) s' else [])
                 (rmatch i r s)) @ [s]"

definition Plus :: "regex \<Rightarrow> regex" where
  "Plus r = Seq r (Star r)"

fun seqs :: "regex list \<Rightarrow> regex" where
  "seqs [] = Empty"
| "seqs [r] = r"
| "seqs (r # q # rs) = Seq r (seqs (q # rs))"

definition lit :: "string \<Rightarrow> regex" where
  "lit s = seqs (map (\<lambda>c. Atom (Chr (of_char c))) s)"

text \<open>The text matched at the start of \<open>s\<close>, if any.\<close>

definition exec_at :: "bool \<Rightarrow> regex \<Rightarrow> jsstring \<Rightarrow> jsstring option" where
  "exec_at i r s =
     (case rmatch i r s of [] \<Rightarrow> None | rest # _ \<Rightarrow> Some (take (length s - length rest) s))"

text \<open>\<open>s.match(r)\<close> for a pattern without the \<open>g\<close> flag: the leftmost match.\<close>

fun match_first :: "bool \<Rightarrow> regex \<Rightarrow> jsstring \<Rightarrow> jsstring option" where
  "match_first i r [] = exec_at i r []"
| "match_first i r (c # cs) =
     (case exec_at i r (c # cs) of Some m \<Rightarrow> Some m | None \<Rightarrow> match_first i r cs)"

text \<open>
  \<open>s.match(r)\<close> for a pattern with the \<open>g\<close> flag: all matches from left to right, the
  search resuming after each match (one unit further after an empty match). JavaScript
  returns \<open>null\<close> where this list is empty.
\<close>

function match_all :: "bool \<Rightarrow> regex \<Rightarrow> jsstring \<Rightarrow> jsstring list" where
  "match_all i r [] = (case exec_at i r [] of None \<Rightarrow> [] | Some m \<Rightarrow> [m])"
| "match_all i r (c # cs) =
     (case exec_at i r (c # cs) of
        None \<Rightarrow> match_all i r cs
      | Some m \<Rightarrow> m # match_all i r (drop (length m - 1) cs))"
  by pat_completeness auto
termination
  by (relation "measure (\<lambda>(i, r, s). length s)") auto

section \<open>Parsing a ranking\<close>

text \<open>
  The three patterns of \<open>parseRankingWithConfidence\<close>, and the two it applies to each
  match of the first.
\<close>

definition re_confidence_word :: regex where
  "re_confidence_word = Alt (lit ''HIGH'') (Alt (lit ''MEDIUM'') (lit ''LOW''))"

definition re_label :: regex where
  "re_label = Seq (lit ''Response '') (Atom (Rng 65 90))"

definition re_numbered_confidence :: regex where
  "re_numbered_confidence =
     seqs [Plus (Atom Digit), Atom (Chr 46), Star (Atom Space), re_label, Star (Atom Space),
           Opt (Atom (Chr 40)), re_confidence_word, Opt (Atom (Chr 41))]"

definition re_confidence :: regex where
  "re_confidence = seqs [Atom (Chr 40), re_confidence_word, Atom (Chr 41)]"

definition re_numbered :: regex where
  "re_numbered = seqs [Plus (Atom Digit), Atom (Chr 46), Star (Atom Space), re_label]"

record parsed =
  ranking :: "jsstring list"
  confidenceScores :: "(jsstring \<times> jsstring) list"

definition MEDIUM :: jsstring where
  "MEDIUM = js ''MEDIUM''"

text \<open>One step of the \<open>forEach\<close> over the matches with a confidence.\<close>

definition push_confident :: "jsstring \<Rightarrow> parsed \<Rightarrow> parsed" where
  "push_confident m p =
     (case match_first True re_label m of
        None \<Rightarrow> p
      | Some label \<Rightarrow>
          \<lparr>ranking = ranking p @ [label],
           confidenceScores =
             AList.update label
               (case match_first True re_confidence m of
                  Some cm \<Rightarrow> toUpperCase (butlast (tl cm))
                | None \<Rightarrow> MEDIUM)
               (confidenceScores p)\<rparr>)"

text \<open>One step of the \<open>forEach\<close> of the second tier: the label inside a numbered match.\<close>

definition push_numbered :: "jsstring \<Rightarrow> parsed \<Rightarrow> parsed" where
  "push_numbered m p =
     (case match_first False re_label m of
        None \<Rightarrow> p
      | Some label \<Rightarrow>
          \<lparr>ranking = ranking p @ [label],
           confidenceScores = AList.update label MEDIUM (confidenceScores p)\<rparr>)"

text \<open>One step of the \<open>forEach\<close> of the last two tiers: the match is the label.\<close>

definition push_label :: "jsstring \<Rightarrow> parsed \<Rightarrow> parsed" where
  "push_label label p =
     \<lparr>ranking = ranking p @ [label],
      confidenceScores = AList.update label MEDIUM (confidenceScores p)\<rparr>"

definition empty_parsed :: parsed where
  "empty_parsed = \<lparr>ranking = [], confidenceScores = []\<rparr>"

definition marker :: jsstring where
  "marker = js ''FINAL RANKING:''"

text \<open>The last fallback: every \<open>Response X\<close> of the whole text.\<close>

definition parse_whole_text :: "jsstring \<Rightarrow> parsed" where
  "parse_whole_text text = fold push_label (match_all False re_label text) empty_parsed"

text \<open>The tiers applied to the section \<open>parts[1]\<close>; \<open>None\<close> where all three find nothing.\<close>

definition parse_section :: "jsstring \<Rightarrow> parsed option" where
  "parse_section rankingSection =
     (let numberedMatches = match_all True re_numbered_confidence rankingSection in
      if numberedMatches \<noteq> [] then Some (fold push_confident numberedMatches empty_parsed)
      else
        let numberedMatchesSimple = match_all False re_numbered rankingSection in
        if numberedMatchesSimple \<noteq> []
        then Some (fold push_numbered numberedMatchesSimple empty_parsed)
        else
          let matches = match_all False re_label rankingSection in
          if matches \<noteq> [] then Some (fold push_label matches empty_parsed) else None)"

definition parseRankingWithConfidence :: "jsstring \<Rightarrow> parsed" where
  "parseRankingWithConfidence text =
     (if str_includes text marker then
        (case str_split marker text of
           _ # rankingSection # _ \<Rightarrow>
             (case parse_section rankingSection of
                Some p \<Rightarrow> p
              | None \<Rightarrow> parse_whole_text text)
         | _ \<Rightarrow> parse_whole_text text)
      else parse_whole_text text)"

definition parseRanking :: "jsstring \<Rightarrow> jsstring list" where
  "parseRanking text = ranking (parseRankingWithConfidence text)"

section \<open>Validating a ranking\<close>

text \<open>\<open>new Set(ranking).size\<close> is the number of distinct labels.\<close>

definition validateRanking :: "jsstring list \<Rightarrow> nat \<Rightarrow> bool" where
  "validateRanking rk expectedCount =
     (if rk = [] then False
      else if length rk < expectedCount then False
      else if length (remdups rk) \<noteq> length rk then False
      else True)"

section \<open>Extracting the ranking criteria\<close>

text \<open>
  A pattern of the form \<open>r1(r2)\<close>: the whole match and the text captured by the group,
  taken from the first path of the backtracking matcher that succeeds.
\<close>

definition exec_capture_at ::
  "bool \<Rightarrow> regex \<Rightarrow> regex \<Rightarrow> jsstring \<Rightarrow> (jsstring \<times> jsstring) option" where
  "exec_capture_at i r1 r2 s =
     (case concat (map (\<lambda>s1. map (\<lambda>s2. (s1, s2)) (rmatch i r2 s1)) (rmatch i r1 s)) of
        [] \<Rightarrow> None
      | (s1, s2) # _ \<Rightarrow>
          Some (take (length s - length s2) s, take (length s1 - length s2) s1))"

text \<open>\<open>s.matchAll(r)\<close>: the captured text of every match, from left to right.\<close>

function matchAll_capture :: "bool \<Rightarrow> regex \<Rightarrow> regex \<Rightarrow> jsstring \<Rightarrow> jsstring list" where
  "matchAll_capture i r1 r2 [] =
     (case exec_capture_at i r1 r2 [] of None \<Rightarrow> [] | Some (m, g) \<Rightarrow> [g])"
| "matchAll_capture i r1 r2 (c # cs) =
     (case exec_capture_at i r1 r2 (c # cs) of
        None \<Rightarrow> matchAll_capture i r1 r2 cs
      | Some (m, g) \<Rightarrow> g # matchAll_capture i r1 r2 (drop (length m - 1) cs))"
  by pat_completeness auto
termination
  by (relation "measure (\<lambda>(i, r1, r2, s). length s)") auto

record criteria =
  mentioned :: "jsstring list"
  weights :: "(jsstring \<times> jsnum) list"

definition criteriaKeywords :: "jsstring list" where
  "criteriaKeywords =
     map js [''accuracy'', ''completeness'', ''clarity'', ''relevance'', ''depth'',
             ''detail'', ''precision'', ''coherence'', ''creativity'', ''practicality'',
             ''technical'', ''understandable'', ''concise'', ''thorough'']"

definition re_criteria_head :: regex where
  "re_criteria_head =
     Seq (Alt (lit ''criteria'')
           (Alt (lit ''criterion'')
             (Alt (Seq (lit ''evaluat'') (Alt (lit ''ing'') (lit ''ed'')))
                  (Seq (lit ''consider'') (Alt (lit ''ing'') (lit ''ed''))))))
         (Plus (Alt (Atom (Chr 58)) (Atom Space)))"

definition re_criteria_group :: regex where
  "re_criteria_group = Plus (Atom (NotChr 46))"

text \<open>One step of the inner \<open>forEach\<close>: a keyword of the captured text not yet mentioned.\<close>

definition add_keyword :: "jsstring \<Rightarrow> jsstring \<Rightarrow> jsstring list \<Rightarrow> jsstring list" where
  "add_keyword criteriaText keyword ms =
     (if str_includes criteriaText keyword \<and> keyword \<notin> set ms then ms @ [keyword] else ms)"

definition extractRankingCriteria :: "jsstring \<Rightarrow> criteria option" where
  "extractRankingCriteria text =
     (let lowerText = toLowerCase text;
          ms0 = filter (\<lambda>keyword. str_includes lowerText keyword) criteriaKeywords;
          matches = matchAll_capture True re_criteria_head re_criteria_group text;
          ms = fold (\<lambda>g ms. fold (add_keyword (toLowerCase g)) criteriaKeywords ms) matches ms0
      in if ms \<noteq> [] then Some \<lparr>mentioned = ms, weights = []\<rparr> else None)"

section \<open>The world outside the council\<close>

text \<open>
  The council reads and changes three things outside itself: the Completion Service,
  the analytics kept in \<open>localStorage\<close>, and the console.

  \<^item> The Completion Service is a parameter \<open>send\<close>. One call stands for
    \<open>sendChatCompletion\<close> followed by \<open>extractMessageContent\<close>: it takes the state of the
    service, the model, the content of the single user message and the API key, and
    returns the new state with either the message of the error thrown (\<open>Inl\<close>) or the
    content of the reply (\<open>Inr\<close>; \<open>extractMessageContent\<close> does not throw, and the
    content is a string, as the service delivers it). The requests of
    \<open>collectRankings\<close> are started in input order and awaited together; the model runs
    them one after the other in that order.
  \<^item> Of the stored analytics only the fields of \<open>modelStats\<close> that the council reads are
    kept; \<open>None\<close> is a storage without the key \<open>model_analytics\<close>. The stored total of
    the quality scores is a finite double, the counters are integers.
  \<^item> The console is the list of the lines written, oldest first.
\<close>

type_synonym 'w transport =
  "'w \<Rightarrow> jsstring \<Rightarrow> jsstring \<Rightarrow> jsstring \<Rightarrow> (jsstring + jsstring) \<times> 'w"

record stored_stats =
  st_modelId :: jsstring
  totalInteractions :: nat
  totalQualityScore :: real
  qualityScoreCount :: nat
  errorCount :: nat

datatype log_line = ConsoleError jsstring jsstring | ConsoleWarn jsstring

record 'w world =
  net :: 'w
  storage :: "stored_stats list option"
  console :: "log_line list"

record model_stats =
  ms_modelId :: jsstring
  avgQualityScore :: "jsnum option"
  errorRate :: jsnum

text \<open>
  \<open>getAllModelStats\<close> of the analytics module. \<open>getAnalytics\<close> first creates the stored
  object, with no statistics, where the key is missing.
\<close>

definition getAllModelStats :: "'w world \<Rightarrow> model_stats list \<times> 'w world" where
  "getAllModelStats w =
     (let modelStats = (case storage w of None \<Rightarrow> [] | Some ss \<Rightarrow> ss) in
      (map (\<lambda>stats.
              \<lparr>ms_modelId = st_modelId stats,
               avgQualityScore =
                 (if qualityScoreCount stats > 0
                  then Some (js_div (Fin (totalQualityScore stats))
                               (js_nat (qualityScoreCount stats)))
                  else None),
               errorRate =
                 (if totalInteractions stats > 0
                  then js_div (js_nat (errorCount stats)) (js_nat (totalInteractions stats))
                  else Fin 0)\<rparr>)
           modelStats,
       w\<lparr>storage := Some modelStats\<rparr>))"

section \<open>Aggregating the rankings\<close>

record response =
  modelId :: jsstring
  modelName :: jsstring
  content :: jsstring

record model_info =
  info_modelId :: jsstring
  info_modelName :: jsstring

type_synonym label_map = "(jsstring \<times> model_info) list"

record raw_ranking =
  rk_modelId :: jsstring
  rk_modelName :: jsstring
  fullRanking :: jsstring
  parsedRanking :: "jsstring list"
  rk_confidenceScores :: "(jsstring \<times> jsstring) list"
  rankingCriteria :: "criteria option"
  isValid :: bool
  rk_error :: "jsstring option"

record options =
  useWeightedAggregation :: "bool option"
  useConfidenceWeighting :: "bool option"

record weighted_position =
  position :: nat
  weight :: jsnum

record confidence_distribution =
  cd_HIGH :: nat
  cd_MEDIUM :: nat
  cd_LOW :: nat

record aggregate_entry =
  label :: jsstring
  agg_modelId :: jsstring
  agg_modelName :: jsstring
  avgRank :: jsnum
  rankingsCount :: nat
  avgConfidence :: jsnum
  confidenceDistribution :: confidence_distribution
  totalWeight :: jsnum

text \<open>The literals \<open>0.7\<close> and \<open>0.4\<close> are the doubles nearest to them.\<close>

definition confidenceWeights :: "(jsstring \<times> jsnum) list" where
  "confidenceWeights =
     [(js ''HIGH'', Fin 1), (js ''MEDIUM'', js_num (7 / 10)), (js ''LOW'', js_num (4 / 10))]"

text \<open>The weight of a ranking model, from its history.\<close>

definition modelWeight_of ::
  "bool \<Rightarrow> (jsstring \<rightharpoonup> model_stats) \<Rightarrow> jsstring \<Rightarrow> jsnum" where
  "modelWeight_of weighted modelStatsMap mid =
     (if weighted then
        (case modelStatsMap mid of
           None \<Rightarrow> Fin 1
         | Some stats \<Rightarrow>
             (let qualityWeight =
                    (case avgQualityScore stats of
                       None \<Rightarrow> Fin (1 / 2)
                     | Some q \<Rightarrow> if js_truthy q then js_div q (Fin 100) else Fin (1 / 2));
                  errorPenalty =
                    (if js_truthy (errorRate stats) then errorRate stats else Fin 0)
              in js_add (Fin (1 / 2))
                   (js_mul (js_mul qualityWeight (js_sub (Fin 1) errorPenalty)) (Fin 1))))
      else Fin 1)"

text \<open>\<open>confidenceScores[label]\<close> where it is truthy: a stored, non-empty string.\<close>

definition truthy_lookup :: "(jsstring \<times> jsstring) list \<Rightarrow> jsstring \<Rightarrow> jsstring option" where
  "truthy_lookup cs k = (case map_of cs k of Some c \<Rightarrow> if c \<noteq> [] then Some c else None | None \<Rightarrow> None)"

type_synonym positions_acc =
  "(jsstring \<times> weighted_position list) list \<times> (jsstring \<times> jsstring list) list"

text \<open>
  The weight of one vote: the weight of the model, times the weight of the confidence
  where confidence weighting is on and the ranking states a confidence for the label.
\<close>

definition effectiveWeight_of ::
  "bool \<Rightarrow> jsnum \<Rightarrow> (jsstring \<times> jsstring) list \<Rightarrow> jsstring \<Rightarrow> jsnum" where
  "effectiveWeight_of confWeighting modelWeight cs lbl =
     (case truthy_lookup cs lbl of
        Some c \<Rightarrow>
          if confWeighting
          then js_mul modelWeight
                 (case map_of confidenceWeights c of
                    Some cw \<Rightarrow> if js_truthy cw then cw else js_num (7 / 10)
                  | None \<Rightarrow> js_num (7 / 10))
          else modelWeight
      | None \<Rightarrow> modelWeight)"

text \<open>One turn of the inner loop, for the label at index \<open>pos\<close> of a ranking.\<close>

definition add_position ::
  "bool \<Rightarrow> jsnum \<Rightarrow> (jsstring \<times> jsstring) list \<Rightarrow> nat \<Rightarrow> jsstring \<Rightarrow> positions_acc \<Rightarrow> positions_acc" where
  "add_position confWeighting modelWeight cs pos lbl acc =
     (let fresh = (map_of (fst acc) lbl = None);
          positionsByLabel = (if fresh then AList.update lbl [] (fst acc) else fst acc);
          confidenceByLabel = (if fresh then AList.update lbl [] (snd acc) else snd acc);
          effectiveWeight = effectiveWeight_of confWeighting modelWeight cs lbl
      in (AList.map_entry lbl
            (\<lambda>wps. wps @ [\<lparr>position = pos + 1, weight = effectiveWeight\<rparr>]) positionsByLabel,
          AList.map_entry lbl
            (\<lambda>cfs. cfs @ [case truthy_lookup cs lbl of Some c \<Rightarrow> c | None \<Rightarrow> MEDIUM])
            confidenceByLabel))"

fun add_positions ::
  "bool \<Rightarrow> jsnum \<Rightarrow> (jsstring \<times> jsstring) list \<Rightarrow> nat \<Rightarrow> jsstring list \<Rightarrow> positions_acc \<Rightarrow> positions_acc" where
  "add_positions confWeighting modelWeight cs pos [] acc = acc"
| "add_positions confWeighting modelWeight cs pos (lbl # rest) acc =
     add_positions confWeighting modelWeight cs (Suc pos) rest
       (add_position confWeighting modelWeight cs pos lbl acc)"

text \<open>One turn of the outer loop, for one ranking.\<close>

definition add_ranking ::
  "bool \<Rightarrow> bool \<Rightarrow> (jsstring \<rightharpoonup> model_stats) \<Rightarrow> raw_ranking \<Rightarrow> positions_acc \<Rightarrow> positions_acc" where
  "add_ranking weighted confWeighting modelStatsMap rk acc =
     (if \<not> isValid rk \<and> parsedRanking rk = [] then acc
      else add_positions confWeighting (modelWeight_of weighted modelStatsMap (rk_modelId rk))
             (rk_confidenceScores rk) 0 (parsedRanking rk) acc)"

text \<open>The entry of one label, where it has positions and is a key of \<open>labelToModel\<close>.\<close>

definition aggregate_entry_of ::
  "label_map \<Rightarrow> (jsstring \<times> jsstring list) list \<Rightarrow> jsstring \<times> weighted_position list \<Rightarrow> aggregate_entry list" where
  "aggregate_entry_of labelToModel confidenceByLabel e =
     (case e of (lbl, weightedPositions) \<Rightarrow>
        (case map_of labelToModel lbl of
           None \<Rightarrow> []
         | Some info \<Rightarrow>
             if weightedPositions = [] then []
             else
               (let tw = fold (\<lambda>wp sum. js_add sum (weight wp)) weightedPositions (Fin 0);
                    weightedSum =
                      fold (\<lambda>wp sum. js_add sum (js_mul (js_nat (position wp)) (weight wp)))
                        weightedPositions (Fin 0);
                    ar = (if js_gt tw (Fin 0) then js_div weightedSum tw else Fin 0);
                    confidences = (case map_of confidenceByLabel lbl of Some cfs \<Rightarrow> cfs | None \<Rightarrow> []);
                    confidenceDist =
                      \<lparr>cd_HIGH = length (filter (\<lambda>c. c = js ''HIGH'') confidences),
                       cd_MEDIUM = length (filter (\<lambda>c. c = js ''MEDIUM'') confidences),
                       cd_LOW = length (filter (\<lambda>c. c = js ''LOW'') confidences)\<rparr>;
                    ac =
                      (if confidences \<noteq> []
                       then js_div
                              (js_add
                                 (js_add (js_mul (js_nat (cd_HIGH confidenceDist)) (Fin 1))
                                    (js_mul (js_nat (cd_MEDIUM confidenceDist)) (js_num (7 / 10))))
                                 (js_mul (js_nat (cd_LOW confidenceDist)) (js_num (4 / 10))))
                              (js_nat (length confidences))
                       else js_num (7 / 10))
                in [\<lparr>label = lbl,
                     agg_modelId = info_modelId info,
                     agg_modelName = info_modelName info,
                     avgRank = js_round2 ar,
                     rankingsCount = length weightedPositions,
                     avgConfidence = js_round2 ac,
                     confidenceDistribution = confidenceDist,
                     totalWeight = js_round2 tw\<rparr>])))"

text \<open>
  The pure part of \<open>calculateAggregateRankings\<close>, given the statistics read. The
  \<open>Map\<close> built from the statistics keeps the last entry of a model; the final sort puts
  an entry after another where the difference of their ranks is positive.
\<close>

definition aggregate_with ::
  "model_stats list \<Rightarrow> bool \<Rightarrow> bool \<Rightarrow> raw_ranking list \<Rightarrow> label_map \<Rightarrow> aggregate_entry list" where
  "aggregate_with allModelStats weighted confWeighting rks labelToModel =
     (let modelStatsMap = map_of (rev (map (\<lambda>s. (ms_modelId s, s)) allModelStats));
          (positionsByLabel, confidenceByLabel) =
            fold (add_ranking weighted confWeighting modelStatsMap) rks ([], [])
      in js_sort (\<lambda>a b. js_gt (js_sub (avgRank a) (avgRank b)) (Fin 0))
           (concat (map (aggregate_entry_of labelToModel confidenceByLabel) positionsByLabel)))"

definition calculateAggregateRankings ::
  "raw_ranking list \<Rightarrow> label_map \<Rightarrow> options \<Rightarrow> 'w world \<Rightarrow> aggregate_entry list \<times> 'w world" where
  "calculateAggregateRankings rks labelToModel opts w =
     (let weighted = (case useWeightedAggregation opts of None \<Rightarrow> True | Some b \<Rightarrow> b);
          confWeighting = (case useConfidenceWeighting opts of None \<Rightarrow> True | Some b \<Rightarrow> b);
          (allModelStats, w') = (if weighted then getAllModelStats w else ([], w))
      in (aggregate_with allModelStats weighted confWeighting rks labelToModel, w'))"

section \<open>Analysing the disagreements\<close>

record label_stats =
  mean :: jsnum
  variance :: jsnum
  stdDev :: jsnum
  positions :: "nat list"

record disagreement =
  dis_label :: jsstring
  dis_modelName :: jsstring
  dis_variance :: jsnum
  dis_stdDev :: jsnum
  dis_positions :: "nat list"
  rankRange :: "(nat \<times> nat) option"

record contested =
  mc_label :: jsstring
  mc_modelName :: jsstring
  mc_variance :: jsnum
  mc_stdDev :: jsnum

text \<open>
  The report. \<open>positionMatrix\<close> is \<open>None\<close> where the returned object has no such field.
\<close>

record disagreement_analysis =
  consensus :: jsnum
  disagreements :: "disagreement list"
  mostContested :: "contested option"
  positionMatrix :: "(jsstring \<times> nat list) list option"

text \<open>One turn of the inner \<open>forEach\<close>: a position is kept for a label of the matrix only.\<close>

definition note_position ::
  "nat \<times> jsstring \<Rightarrow> (jsstring \<times> nat list) list \<Rightarrow> (jsstring \<times> nat list) list" where
  "note_position il pm =
     (case il of (index, lbl) \<Rightarrow>
        if map_of pm lbl \<noteq> None then AList.map_entry lbl (\<lambda>ps. ps @ [index + 1]) pm else pm)"

definition build_positionMatrix ::
  "jsstring list \<Rightarrow> raw_ranking list \<Rightarrow> (jsstring \<times> nat list) list" where
  "build_positionMatrix labels validRankings =
     fold (\<lambda>rk pm. fold note_position (enumerate 0 (parsedRanking rk)) pm) validRankings
       (fold (\<lambda>lbl pm. AList.update lbl [] pm) labels [])"

definition stats_of :: "nat list \<Rightarrow> label_stats" where
  "stats_of ps =
     (let m = js_div (fold (\<lambda>b a. js_add a (js_nat b)) ps (Fin 0)) (js_nat (length ps));
          v = js_div
                (fold (\<lambda>pos sum. js_add sum (js_pow2 (js_sub (js_nat pos) m))) ps (Fin 0))
                (js_nat (length ps))
      in \<lparr>mean = m, variance = v, stdDev = js_sqrt v, positions = ps\<rparr>)"

definition build_variances ::
  "jsstring list \<Rightarrow> (jsstring \<times> nat list) list \<Rightarrow> (jsstring \<times> label_stats) list" where
  "build_variances labels pm =
     fold (\<lambda>lbl vs.
             case map_of pm lbl of
               None \<Rightarrow> vs
             | Some ps \<Rightarrow> if ps = [] then vs else AList.update lbl (stats_of ps) vs)
          labels []"

text \<open>\<open>labelToModel[label]?.modelName || label\<close>.\<close>

definition name_or_label :: "label_map \<Rightarrow> jsstring \<Rightarrow> jsstring" where
  "name_or_label labelToModel lbl =
     (case map_of labelToModel lbl of
        Some info \<Rightarrow> if info_modelName info \<noteq> [] then info_modelName info else lbl
      | None \<Rightarrow> lbl)"

definition analyzeDisagreements :: "raw_ranking list \<Rightarrow> label_map \<Rightarrow> disagreement_analysis" where
  "analyzeDisagreements rks labelToModel =
     (let validRankings = filter (\<lambda>r. isValid r \<and> parsedRanking r \<noteq> []) rks in
      if length validRankings < 2
      then \<lparr>consensus = Fin 1, disagreements = [], mostContested = None, positionMatrix = None\<rparr>
      else
        (let labels = map fst labelToModel;
             pm = build_positionMatrix labels validRankings;
             variances = build_variances labels pm;
             contestedFirst =
               js_sort (\<lambda>a b. js_gt (js_sub (variance (snd b)) (variance (snd a))) (Fin 0))
                 variances;
             tv = fold (\<lambda>v sum. js_add sum (variance v)) (map snd variances) (Fin 0);
             maxPossibleVariance = js_div (js_pow2 (js_nat (length labels))) (Fin 12);
             cns = js_max0 (js_sub (Fin 1)
                     (js_div tv (js_mul maxPossibleVariance (js_nat (length labels)))));
             ds = js_sort (\<lambda>a b. js_gt (js_sub (dis_variance b) (dis_variance a)) (Fin 0))
                    (map (\<lambda>e. case e of (lbl, stats) \<Rightarrow>
                            \<lparr>dis_label = lbl,
                             dis_modelName = name_or_label labelToModel lbl,
                             dis_variance = variance stats,
                             dis_stdDev = stdDev stats,
                             dis_positions = positions stats,
                             rankRange =
                               (case positions stats of
                                  [] \<Rightarrow> None
                                | q # qs \<Rightarrow> Some (fold min qs q, fold max qs q))\<rparr>)
                         (filter (\<lambda>e. js_gt (stdDev (snd e)) (Fin 1)) variances))
         in \<lparr>consensus = js_round2 cns,
             disagreements = ds,
             mostContested =
               (case contestedFirst of
                  [] \<Rightarrow> None
                | (lbl, stats) # _ \<Rightarrow>
                    Some \<lparr>mc_label = lbl,
                          mc_modelName = name_or_label labelToModel lbl,
                          mc_variance = variance stats,
                          mc_stdDev = stdDev stats\<rparr>),
             positionMatrix = Some pm\<rparr>))"

section \<open>Collecting the rankings\<close>

definition rankingPrompt :: "jsstring \<Rightarrow> jsstring \<Rightarrow> jsstring" where
  "rankingPrompt userQuery responsesText =
     concat
      [js ''You are evaluating different responses to the following question:\<newline>'',
       js ''\<newline>'',
       js ''Question: '',
       userQuery,
       js ''\<newline>'',
       js ''\<newline>'',
       js ''Here are the responses from different models (anonymized):\<newline>'',
       js ''\<newline>'',
       responsesText,
       js ''\<newline>'',
       js ''\<newline>'',
       js ''Your task:\<newline>'',
       js ''1. First, evaluate each response individually. For each response, explain:\<newline>'',
       js ''   - What it does well (strengths)\<newline>'',
       js ''   - What it does poorly (weaknesses)\<newline>'',
       js ''   - What criteria you're using to evaluate (accuracy, completeness, clarity, relevance, etc.)\<newline>'',
       js ''   - Your confidence level in this evaluation (HIGH, MEDIUM, or LOW)\<newline>'',
       js ''2. Then, at the very end of your response, provide a final ranking with confidence scores.\<newline>'',
       js ''\<newline>'',
       js ''IMPORTANT: Your final ranking MUST be formatted EXACTLY as follows:\<newline>'',
       js ''- Start with the line \"FINAL RANKING:\" (all caps, with colon)\<newline>'',
       js ''- Then list the responses from best to worst as a numbered list\<newline>'',
       js ''- Each line should be: number, period, space, response label, space, confidence in parentheses\<newline>'',
       js ''- Format: \"1. Response A (HIGH)\" or \"2. Response B (MEDIUM)\" or \"3. Response C (LOW)\"\<newline>'',
       js ''- Do not add any other text or explanations in the ranking section\<newline>'',
       js ''\<newline>'',
       js ''Example of the correct format for your ENTIRE response:\<newline>'',
       js ''\<newline>'',
       js ''Response A provides good detail on X but misses Y. Criteria: accuracy (good), completeness (partial). Confidence: MEDIUM.\<newline>'',
       js ''Response B is accurate but lacks depth on Z. Criteria: accuracy (excellent), depth (lacking). Confidence: HIGH.\<newline>'',
       js ''Response C offers the most comprehensive answer. Criteria: all aspects strong. Confidence: HIGH.\<newline>'',
       js ''\<newline>'',
       js ''FINAL RANKING:\<newline>'',
       js ''1. Response C (HIGH)\<newline>'',
       js ''2. Response B (HIGH)\<newline>'',
       js ''3. Response A (MEDIUM)\<newline>'',
       js ''\<newline>'',
       js ''Now provide your evaluation and ranking:'']"

text \<open>The labels \<open>A\<close>, \<open>B\<close>, \<open>C\<close>, ... of the responses, by index.\<close>

definition labels_of :: "response list \<Rightarrow> jsstring list" where
  "labels_of responses = map (\<lambda>i. fromCharCode (65 + i)) [0..<length responses]"

definition build_labelToModel :: "response list \<Rightarrow> label_map" where
  "build_labelToModel responses =
     fold (\<lambda>(lbl, r) m.
             AList.update (js ''Response '' @ lbl)
               \<lparr>info_modelId = modelId r, info_modelName = modelName r\<rparr> m)
          (zip (labels_of responses) responses) []"

text \<open>The request of one model for its ranking, with the \<open>catch\<close> of its failure.\<close>

definition rank_one ::
  "'w transport \<Rightarrow> jsstring \<Rightarrow> jsstring \<Rightarrow> nat \<Rightarrow> response \<Rightarrow> 'w world \<Rightarrow> raw_ranking \<times> 'w world" where
  "rank_one send prompt apiKey expected r w =
     (case send (net w) (modelId r) prompt apiKey of
        (Inr reply, n') \<Rightarrow>
          (let p = parseRankingWithConfidence reply in
           (\<lparr>rk_modelId = modelId r,
             rk_modelName = modelName r,
             fullRanking = reply,
             parsedRanking = ranking p,
             rk_confidenceScores = confidenceScores p,
             rankingCriteria = extractRankingCriteria reply,
             isValid = validateRanking (ranking p) expected,
             rk_error = None\<rparr>,
            w\<lparr>net := n'\<rparr>))
      | (Inl message, n') \<Rightarrow>
          (\<lparr>rk_modelId = modelId r,
            rk_modelName = modelName r,
            fullRanking = js ''Error: '' @ message,
            parsedRanking = [],
            rk_confidenceScores = [],
            rankingCriteria = None,
            isValid = False,
            rk_error = Some message\<rparr>,
           w\<lparr>net := n',
             console := console w
               @ [ConsoleError (js ''Error getting ranking from '' @ modelName r @ js '':'') message]\<rparr>))"

fun rank_all ::
  "'w transport \<Rightarrow> jsstring \<Rightarrow> jsstring \<Rightarrow> nat \<Rightarrow> response list \<Rightarrow> 'w world \<Rightarrow> raw_ranking list \<times> 'w world" where
  "rank_all send prompt apiKey expected [] w = ([], w)"
| "rank_all send prompt apiKey expected (r # rs) w =
     (case rank_one send prompt apiKey expected r w of
        (rk, w') \<Rightarrow>
          (case rank_all send prompt apiKey expected rs w' of
             (rks, w'') \<Rightarrow> (rk # rks, w'')))"

datatype js_error = Error jsstring

record collected =
  cr_rankings :: "raw_ranking list"
  cr_labelToModel :: label_map

definition collectRankings ::
  "'w transport \<Rightarrow> jsstring \<Rightarrow> response list \<Rightarrow> jsstring \<Rightarrow> 'w world \<Rightarrow> (js_error + collected) \<times> 'w world" where
  "collectRankings send userQuery responses apiKey w =
     (let labels = labels_of responses;
          labelToModel = build_labelToModel responses;
          responsesText =
            str_join (js ''\<newline>\<newline>'')
              (map (\<lambda>(lbl, r). js ''Response '' @ lbl @ js '':\<newline>'' @ content r)
                   (zip labels responses));
          prompt = rankingPrompt userQuery responsesText
      in case rank_all send prompt apiKey (length labels) responses w of
           (rks, w') \<Rightarrow> (Inr \<lparr>cr_rankings = rks, cr_labelToModel = labelToModel\<rparr>, w'))"

section \<open>The chairman's synthesis\<close>

definition chairmanPrompt :: "jsstring \<Rightarrow> jsstring \<Rightarrow> jsstring \<Rightarrow> jsstring" where
  "chairmanPrompt userQuery stage1Text stage2Text =
     concat
      [js ''You are the Chairman of an LLM Council. Multiple AI models have provided responses to a user's question, and then ranked each other's responses.\<newline>'',
       js ''\<newline>'',
       js ''Original Question: '',
       userQuery,
       js ''\<newline>'',
       js ''\<newline>'',
       js ''STAGE 1 - Individual Responses:\<newline>'',
       stage1Text,
       js ''\<newline>'',
       js ''\<newline>'',
       js ''STAGE 2 - Peer Rankings:\<newline>'',
       stage2Text,
       js ''\<newline>'',
       js ''\<newline>'',
       js ''Your task as Chairman is to synthesize all of this information into a single, comprehensive, accurate answer to the user's original question. Consider:\<newline>'',
       js ''- The individual responses and their insights\<newline>'',
       js ''- The peer rankings and what they reveal about response quality\<newline>'',
       js ''- Any patterns of agreement or disagreement\<newline>'',
       js ''\<newline>'',
       js ''Provide a clear, well-reasoned final answer that represents the council's collective wisdom:'']"

record synthesis_result =
  syn_modelId :: jsstring
  syn_modelName :: jsstring
  syn_content :: jsstring

text \<open>The message sent to the chairman.\<close>

definition synthesis_prompt :: "jsstring \<Rightarrow> response list \<Rightarrow> raw_ranking list \<Rightarrow> jsstring" where
  "synthesis_prompt userQuery responses rks =
     chairmanPrompt userQuery
       (str_join (js ''\<newline>\<newline>'')
          (map (\<lambda>r. js ''Model: '' @ modelName r @ js ''\<newline>Response: '' @ content r) responses))
       (str_join (js ''\<newline>\<newline>'')
          (map (\<lambda>r. js ''Model: '' @ rk_modelName r @ js ''\<newline>Ranking: '' @ fullRanking r) rks))"

definition synthesizeFinal ::
  "'w transport \<Rightarrow> jsstring \<Rightarrow> response list \<Rightarrow> raw_ranking list \<Rightarrow> jsstring \<Rightarrow> jsstring \<Rightarrow> 'w world
   \<Rightarrow> synthesis_result \<times> 'w world" where
  "synthesizeFinal send userQuery responses rks chairmanModelId apiKey w =
     (case send (net w) chairmanModelId (synthesis_prompt userQuery responses rks) apiKey of
        (Inr reply, n') \<Rightarrow>
          (\<lparr>syn_modelId = chairmanModelId,
            syn_modelName =
              (case find (\<lambda>r. modelId r = chairmanModelId) responses of
                 Some chairmanModel \<Rightarrow>
                   if modelName chairmanModel \<noteq> [] then modelName chairmanModel
                   else js ''Chairman''
               | None \<Rightarrow> js ''Chairman''),
            syn_content = reply\<rparr>,
           w\<lparr>net := n'\<rparr>)
      | (Inl message, n') \<Rightarrow>
          (\<lparr>syn_modelId = chairmanModelId,
            syn_modelName = js ''Chairman'',
            syn_content = js ''Error synthesizing response: '' @ message\<rparr>,
           w\<lparr>net := n',
             console := console w @ [ConsoleError (js ''Error in chairman synthesis:'') message]\<rparr>))"

section \<open>The council\<close>

record ranking_validation =
  totalRankings :: nat
  validRankings :: nat
  invalidRankings :: nat
  invalidDetails :: "(jsstring \<times> jsstring) list"

record council_result =
  rankings :: "raw_ranking list"
  labelToModel :: label_map
  aggregateRankings :: "aggregate_entry list"
  synthesis :: synthesis_result
  disagreementAnalysis :: disagreement_analysis
  rankingValidation :: ranking_validation

text \<open>The console after the warning about invalid rankings, where it is due.\<close>

definition warn_invalid :: "nat \<Rightarrow> nat \<Rightarrow> 'w world \<Rightarrow> 'w world" where
  "warn_invalid n_invalid n_total w =
     (if n_invalid > 0 \<and> 2 * n_invalid \<ge> n_total
      then w\<lparr>console := console w
             @ [ConsoleWarn (js ''Warning: '' @ show_nat n_invalid @ js '' out of ''
                             @ show_nat n_total @ js '' rankings are invalid'')]\<rparr>
      else w)"

definition runCouncil ::
  "'w transport \<Rightarrow> jsstring \<Rightarrow> response list \<Rightarrow> jsstring \<Rightarrow> jsstring option \<Rightarrow> options \<Rightarrow> 'w world
   \<Rightarrow> (js_error + council_result) \<times> 'w world" where
  "runCouncil send userQuery responses apiKey chairmanModelId opts w =
     (if length responses < 2
      then (Inl (Error (js ''Council requires at least 2 responses'')), w)
      else
        (let chairman =
               (case chairmanModelId of
                  Some c \<Rightarrow> if c \<noteq> [] then c else modelId (responses ! 0)
                | None \<Rightarrow> modelId (responses ! 0))
         in case collectRankings send userQuery responses apiKey w of
              (Inl e, w1) \<Rightarrow> (Inl e, w1)
            | (Inr cr, w1) \<Rightarrow>
                (let rks = cr_rankings cr;
                     valid = filter isValid rks;
                     invalid = filter (\<lambda>r. \<not> isValid r) rks;
                     w2 = warn_invalid (length invalid) (length rks) w1;
                     chosen = (if valid \<noteq> [] then valid else rks)
                 in case calculateAggregateRankings chosen (cr_labelToModel cr) opts w2 of
                      (agg, w3) \<Rightarrow>
                        (case synthesizeFinal send userQuery responses rks chairman apiKey w3 of
                           (syn, w4) \<Rightarrow>
                             (Inr \<lparr>rankings = rks,
                                   labelToModel = cr_labelToModel cr,
                                   aggregateRankings = agg,
                                   synthesis = syn,
                                   disagreementAnalysis =
                                     analyzeDisagreements chosen (cr_labelToModel cr),
                                   rankingValidation =
                                     \<lparr>totalRankings = length rks,
                                      validRankings = length valid,
                                      invalidRankings = length invalid,
                                      invalidDetails =
                                        map (\<lambda>r. (rk_modelName r,
                                                   case rk_error r of
                                                     Some m \<Rightarrow> if m \<noteq> [] then m
                                                               else js ''Incomplete ranking''
                                                   | None \<Rightarrow> js ''Incomplete ranking''))
                                            invalid\<rparr>\<rparr>,
                              w4)))))"

section \<open>The quantities of the specification\<close>

text \<open>
  The entry of the label map for the response at index \<open>i\<close>: the key is \<open>Response\<close>, a
  space and the code unit \<open>65 + i\<close> (the \<open>i\<close>-th capital letter for \<open>i < 26\<close>), the value
  names the model of that response.
\<close>

definition entry_of :: "response list \<Rightarrow> nat \<Rightarrow> jsstring \<times> model_info" where
  "entry_of responses i =
     (js ''Response '' @ [(65 + i) mod 65536],
      \<lparr>info_modelId = modelId (responses ! i), info_modelName = modelName (responses ! i)\<rparr>)"

text \<open>
  The 1-based positions at which a label stands in an order, counted from index \<open>n\<close>, and
  the positions that a list of rankings gives a label, ranking after ranking.
\<close>

definition positions_from :: "nat \<Rightarrow> jsstring \<Rightarrow> jsstring list \<Rightarrow> nat list" where
  "positions_from n lbl order =
     map (\<lambda>p. fst p + 1) (filter (\<lambda>p. snd p = lbl) (enumerate n order))"

definition positions_in :: "jsstring \<Rightarrow> jsstring list \<Rightarrow> nat list" where
  "positions_in lbl order = positions_from 0 lbl order"

definition label_positions :: "jsstring \<Rightarrow> raw_ranking list \<Rightarrow> nat list" where
  "label_positions lbl rks = concat (map (\<lambda>r. positions_in lbl (parsedRanking r)) rks)"

text \<open>
  The arithmetic mean of positions in double arithmetic: the double quotient of their
  sum by their number.
\<close>

definition arithmetic_mean :: "nat list \<Rightarrow> jsnum" where
  "arithmetic_mean ps = js_div (js_nat (sum_list ps)) (js_nat (length ps))"

text \<open>
  The population variance of positions in double arithmetic, each step rounded in the
  order in which it is written: the sum of the positions from left to right, its quotient
  by their number as the mean, the squares of the differences added from left to right,
  and the quotient of that sum by the number.
\<close>

definition double_sum :: "jsnum list \<Rightarrow> jsnum" where
  "double_sum xs = fold (\<lambda>x sum. js_add sum x) xs (Fin 0)"

definition population_variance :: "nat list \<Rightarrow> jsnum" where
  "population_variance ps =
     (let m = js_div (double_sum (map js_nat ps)) (js_nat (length ps))
      in js_div (double_sum (map (\<lambda>p. js_pow2 (js_sub (js_nat p) m)) ps)) (js_nat (length ps)))"

text \<open>
  The dictionaries of the code are plain objects, which the association lists model for
  keys that are not names of properties that every object inherits (\<open>constructor\<close>,
  \<open>toString\<close>, ...). No such name contains a space, and every label that \<open>collectRankings\<close>
  builds or the parser yields does: \<open>response_labels\<close> says so of the keys of a label map
  and of the labels of parsed orders.
\<close>

definition spaced :: "jsstring \<Rightarrow> bool" where
  "spaced l = (32 \<in> set l)"

definition response_labels :: "raw_ranking list \<Rightarrow> label_map \<Rightarrow> bool" where
  "response_labels rks l2m =
     (list_all spaced (map fst l2m) \<and> list_all (\<lambda>r. list_all spaced (parsedRanking r)) rks)"

text \<open>The array stored under a key of a dictionary; empty where the key is absent.\<close>

definition stored :: "('k \<times> 'v list) list \<Rightarrow> 'k \<Rightarrow> 'v list" where
  "stored al k = (case map_of al k of None \<Rightarrow> [] | Some xs \<Rightarrow> xs)"

text \<open>
  The rankings that take part in the disagreement analysis, the sum of the variances of
  the labels that have positions (added in the order of the labels), and the consensus
  formula of the specification, in double arithmetic.
\<close>

definition valid_rankings :: "raw_ranking list \<Rightarrow> raw_ranking list" where
  "valid_rankings rks = filter (\<lambda>r. isValid r \<and> parsedRanking r \<noteq> []) rks"

definition total_variance :: "jsstring list \<Rightarrow> raw_ranking list \<Rightarrow> jsnum" where
  "total_variance labels rks =
     double_sum (map (\<lambda>l. population_variance (label_positions l rks))
                   (filter (\<lambda>l. label_positions l rks \<noteq> []) labels))"

definition spec_consensus :: "raw_ranking list \<Rightarrow> label_map \<Rightarrow> jsnum" where
  "spec_consensus rks l2m =
     (let labelCount = js_nat (length l2m);
          maxPossibleVariance = js_div (js_pow2 labelCount) (Fin 12);
          totalVariance = total_variance (map fst l2m) (valid_rankings rks)
      in js_max0 (js_sub (Fin 1) (js_div totalVariance (js_mul maxPossibleVariance labelCount))))"

section \<open>Example data\<close>

text \<open>
  Inputs for the examples below: a ranking flagged valid, of a given model, with a given
  order and every label at the confidence \<open>MEDIUM\<close>; label maps of two, three and four
  responses; the options that switch both weightings off; a world with an empty console
  and no stored analytics.
\<close>

definition plain_ranking :: "jsstring \<Rightarrow> jsstring list \<Rightarrow> raw_ranking" where
  "plain_ranking mid order =
     \<lparr>rk_modelId = mid, rk_modelName = mid, fullRanking = str_join (js '', '') order,
      parsedRanking = order, rk_confidenceScores = map (\<lambda>l. (l, MEDIUM)) (remdups order),
      rankingCriteria = None, isValid = True, rk_error = None\<rparr>"

definition two_labels :: label_map where
  "two_labels =
     [(js ''Response A'', \<lparr>info_modelId = js ''m1'', info_modelName = js ''One''\<rparr>),
      (js ''Response B'', \<lparr>info_modelId = js ''m2'', info_modelName = js ''Two''\<rparr>)]"

definition three_labels :: label_map where
  "three_labels =
     [(js ''Response A'', \<lparr>info_modelId = js ''m1'', info_modelName = js ''One''\<rparr>),
      (js ''Response B'', \<lparr>info_modelId = js ''m2'', info_modelName = js ''Two''\<rparr>),
      (js ''Response C'', \<lparr>info_modelId = js ''m3'', info_modelName = js ''Three''\<rparr>)]"

definition four_labels :: label_map where
  "four_labels =
     [(js ''Response A'', \<lparr>info_modelId = js ''m1'', info_modelName = js ''One''\<rparr>),
      (js ''Response B'', \<lparr>info_modelId = js ''m2'', info_modelName = js ''Two''\<rparr>),
      (js ''Response C'', \<lparr>info_modelId = js ''m3'', info_modelName = js ''Three''\<rparr>),
      (js ''Response D'', \<lparr>info_modelId = js ''m4'', info_modelName = js ''Four''\<rparr>)]"

definition plain_options :: options where
  "plain_options = \<lparr>useWeightedAggregation = Some False, useConfidenceWeighting = Some False\<rparr>"

definition quiet_world :: "unit world" where
  "quiet_world = \<lparr>net = (), storage = None, console = []\<rparr>"

section \<open>Properties of the parser\<close>

lemmas re_defs =
  re_confidence_word_def re_label_def re_numbered_confidence_def re_confidence_def
  re_numbered_def Plus_def lit_def

text \<open>
  Claim C2. The text \<open>FINAL RANKING:\<close>, newline, \<open>1. Response B (HIGH)\<close>, newline,
  \<open>2. Response A (LOW)\<close> is parsed to the order \<open>Response B\<close>, \<open>Response A\<close>, in the
  order of appearance after the marker, with the confidence \<open>HIGH\<close> for
  \<open>Response B\<close> and \<open>LOW\<close> for \<open>Response A\<close>.
\<close>

theorem parse_final_ranking_example:
  "parseRankingWithConfidence
     (js ''FINAL RANKING:\<newline>1. Response B (HIGH)\<newline>2. Response A (LOW)'')
   = \<lparr>ranking = [js ''Response B'', js ''Response A''],
      confidenceScores = [(js ''Response B'', js ''HIGH''), (js ''Response A'', js ''LOW'')]\<rparr>"
  by (simp add: parseRankingWithConfidence_def js_def marker_def parse_section_def re_defs
        exec_at_def push_confident_def empty_parsed_def toUpperCase_def upper_unit_def
        is_space_def MEDIUM_def)

text \<open>The label pattern starts with the letter \<open>R\<close> (code unit 82).\<close>

lemma exec_label_other: "c \<noteq> 82 \<Longrightarrow> exec_at False re_label (c # cs) = None"
  by (simp add: exec_at_def re_label_def lit_def)

lemma match_all_label_skip:
  "82 \<notin> set p \<Longrightarrow> match_all False re_label (p @ s) = match_all False re_label s"
  by (induction p) (simp_all add: exec_label_other)

lemma exec_label_here:
  "65 \<le> x \<Longrightarrow> x \<le> 90 \<Longrightarrow>
   exec_at False re_label (js ''Response '' @ x # s) = Some (js ''Response '' @ [x])"
  by (simp add: exec_at_def re_label_def lit_def js_def)

lemma match_all_label_here:
  "65 \<le> x \<Longrightarrow> x \<le> 90 \<Longrightarrow>
   match_all False re_label (js ''Response '' @ x # s)
   = (js ''Response '' @ [x]) # match_all False re_label s"
  using exec_label_here [of x s] by (simp add: js_def)

lemma match_all_label_none: "82 \<notin> set p \<Longrightarrow> match_all False re_label p = []"
  using match_all_label_skip [of p "[]"] by (simp add: exec_at_def re_label_def lit_def)

lemma parse_no_marker:
  "\<not> str_includes text marker \<Longrightarrow> parseRankingWithConfidence text = parse_whole_text text"
  by (simp add: parseRankingWithConfidence_def)

text \<open>
  Claim C3. A text without the marker \<open>FINAL RANKING:\<close> that contains \<open>Response A\<close>,
  then \<open>Response C\<close>, then \<open>Response A\<close> again (and no other capital \<open>R\<close>, so no other
  label) is parsed to the order \<open>Response A\<close>, \<open>Response C\<close>, \<open>Response A\<close>: the
  duplicate is kept. \<open>validateRanking\<close> rejects that order for three expected responses.
\<close>

theorem fallback_keeps_duplicates:
  assumes "\<not> str_includes text marker"
    and "text = p0 @ js ''Response A'' @ p1 @ js ''Response C'' @ p2 @ js ''Response A'' @ p3"
    and "82 \<notin> set p0 \<union> set p1 \<union> set p2 \<union> set p3"
  shows "ranking (parseRankingWithConfidence text)
           = [js ''Response A'', js ''Response C'', js ''Response A'']
       \<and> confidenceScores (parseRankingWithConfidence text)
           = [(js ''Response A'', js ''MEDIUM''), (js ''Response C'', js ''MEDIUM'')]
       \<and> validateRanking (ranking (parseRankingWithConfidence text)) 3 = False"
proof -
  have A: "js ''Response A'' = js ''Response '' @ [65]"
    and C: "js ''Response C'' = js ''Response '' @ [67]"
    by (simp_all add: js_def)
  have "match_all False re_label text
          = [js ''Response A'', js ''Response C'', js ''Response A'']"
    using assms(3) unfolding assms(2) A C
    by (simp add: match_all_label_skip match_all_label_here match_all_label_none)
  then have "parseRankingWithConfidence text =
      \<lparr>ranking = [js ''Response A'', js ''Response C'', js ''Response A''],
       confidenceScores = [(js ''Response A'', js ''MEDIUM''), (js ''Response C'', js ''MEDIUM'')]\<rparr>"
    using assms(1)
    by (simp add: parse_no_marker parse_whole_text_def push_label_def empty_parsed_def
          MEDIUM_def js_def)
  then show ?thesis
    by (simp add: validateRanking_def js_def)
qed

theorem fallback_keeps_duplicates_witness:
  "\<not> str_includes (js ''I put Response A over Response C, so Response A wins'') marker
   \<and> ranking (parseRankingWithConfidence
                (js ''I put Response A over Response C, so Response A wins''))
       = [js ''Response A'', js ''Response C'', js ''Response A'']
   \<and> validateRanking
        (ranking (parseRankingWithConfidence
                    (js ''I put Response A over Response C, so Response A wins''))) 3 = False"
  using fallback_keeps_duplicates
          [of "js ''I put Response A over Response C, so Response A wins''"
              "js ''I put ''" "js '' over ''" "js '', so ''" "js '' wins''"]
  by (simp add: js_def marker_def validateRanking_def)

section \<open>Properties of the orchestrator's guard\<close>

text \<open>
  Claim C1. With fewer than two responses \<open>runCouncil\<close> fails with the error whose message
  is \<open>Council requires at least 2 responses\<close> (the specification's
  \<open>InsufficientResponsesError\<close>). No result is produced and the world is returned as it
  was: no request has been sent, nothing has been stored, nothing has been logged.
\<close>

theorem insufficient_responses:
  assumes "length responses < 2"
  shows "runCouncil send userQuery responses apiKey chairmanModelId opts w
         = (Inl (Error (js ''Council requires at least 2 responses'')), w)"
  using assms by (simp add: runCouncil_def)

theorem insufficient_responses_witness:
  "runCouncil (\<lambda>n m p k. (Inr (js ''FINAL RANKING: 1. Response A (HIGH)''), Suc n)) (js ''why?'')
     [\<lparr>modelId = js ''m1'', modelName = js ''One'', content = js ''because''\<rparr>]
     (js ''key'') None \<lparr>useWeightedAggregation = None, useConfidenceWeighting = None\<rparr>
     \<lparr>net = 0, storage = None, console = []\<rparr>
   = (Inl (Error (js ''Council requires at least 2 responses'')),
      \<lparr>net = 0, storage = None, console = []\<rparr>)"
  using insufficient_responses
          [of "[\<lparr>modelId = js ''m1'', modelName = js ''One'', content = js ''because''\<rparr>]"]
  by simp

section \<open>Properties of the short circuit of the disagreement analysis\<close>

text \<open>
  Claim C6. Where fewer than two rankings are flagged valid and have a non-empty parsed
  order, \<open>analyzeDisagreements\<close> returns the consensus 1, no disagreements and no most
  contested label.
\<close>

theorem too_few_valid_rankings:
  assumes "length (filter (\<lambda>r. isValid r \<and> parsedRanking r \<noteq> []) rks) < 2"
  shows "analyzeDisagreements rks l2m
         = \<lparr>consensus = Fin 1, disagreements = [], mostContested = None, positionMatrix = None\<rparr>"
  using assms by (simp add: analyzeDisagreements_def)

theorem too_few_valid_rankings_witness:
  "analyzeDisagreements
     [\<lparr>rk_modelId = js ''m1'', rk_modelName = js ''One'', fullRanking = js ''Response B, Response A'',
       parsedRanking = [js ''Response B'', js ''Response A''],
       rk_confidenceScores = [(js ''Response B'', js ''MEDIUM''), (js ''Response A'', js ''MEDIUM'')],
       rankingCriteria = None, isValid = True, rk_error = None\<rparr>,
      \<lparr>rk_modelId = js ''m2'', rk_modelName = js ''Two'', fullRanking = js ''Response A'',
       parsedRanking = [js ''Response A''],
       rk_confidenceScores = [(js ''Response A'', js ''MEDIUM'')],
       rankingCriteria = None, isValid = False, rk_error = None\<rparr>,
      \<lparr>rk_modelId = js ''m3'', rk_modelName = js ''Three'', fullRanking = js ''Error: offline'',
       parsedRanking = [], rk_confidenceScores = [],
       rankingCriteria = None, isValid = False, rk_error = Some (js ''offline'')\<rparr>]
     [(js ''Response A'', \<lparr>info_modelId = js ''m1'', info_modelName = js ''One''\<rparr>),
      (js ''Response B'', \<lparr>info_modelId = js ''m2'', info_modelName = js ''Two''\<rparr>)]
   = \<lparr>consensus = Fin 1, disagreements = [], mostContested = None, positionMatrix = None\<rparr>"
  by (rule too_few_valid_rankings) simp

section \<open>Properties of the label map\<close>

lemma unit_of:
  "i < 65536 \<Longrightarrow> (65 + i) mod 65536 = (if i < 65471 then 65 + i else i - 65471 :: nat)"
  by (simp add: mod_if)

lemma label_unit_inj:
  "i < 65536 \<Longrightarrow> j < 65536 \<Longrightarrow> (65 + i) mod 65536 = (65 + j) mod 65536 \<Longrightarrow> i = (j::nat)"
  by (simp add: unit_of split: if_splits)

lemma update_fresh: "k \<notin> fst ` set al \<Longrightarrow> AList.update k v al = al @ [(k, v)]"
  by (induction al) auto

lemma fold_update_fresh:
  "distinct (map fst xs) \<Longrightarrow> fst ` set xs \<inter> fst ` set acc = {} \<Longrightarrow>
   fold (\<lambda>(k, v) m. AList.update k v m) xs acc = acc @ xs"
proof (induction xs arbitrary: acc)
  case Nil
  then show ?case by simp
next
  case (Cons x xs)
  obtain k v where x: "x = (k, v)" by (cases x)
  have fresh: "k \<notin> fst ` set acc" using Cons.prems(2) x by auto
  have "fold (\<lambda>(k, v) m. AList.update k v m) xs (acc @ [(k, v)]) = (acc @ [(k, v)]) @ xs"
    using Cons.prems x by (intro Cons.IH) auto
  then show ?case using fresh x by (simp add: update_fresh)
qed

lemma zip_labels:
  "zip (labels_of responses) responses
   = map (\<lambda>i. (fromCharCode (65 + i), responses ! i)) [0..<length responses]"
  by (rule nth_equalityI) (simp_all add: labels_of_def)

lemma build_labelToModel_eq:
  assumes "length responses \<le> 65536"
  shows "build_labelToModel responses = map (entry_of responses) [0..<length responses]"
proof -
  let ?xs = "map (entry_of responses) [0..<length responses]"
  have inj: "inj_on (\<lambda>i. js ''Response '' @ [(65 + i) mod 65536]) {0..<length responses}"
  proof (rule inj_onI)
    fix i j assume "i \<in> {0..<length responses}" "j \<in> {0..<length responses}"
      and "js ''Response '' @ [(65 + i) mod 65536] = js ''Response '' @ [(65 + j) mod 65536]"
    then have "i < 65536" "j < 65536" "(65 + i) mod 65536 = (65 + j) mod 65536"
      using assms by auto
    then show "i = j" by (rule label_unit_inj)
  qed
  have fst_eq: "fst \<circ> entry_of responses = (\<lambda>i. js ''Response '' @ [(65 + i) mod 65536])"
    by (rule ext) (simp add: entry_of_def)
  have d: "distinct (map fst ?xs)"
    using inj by (simp add: distinct_map fst_eq)
  have "build_labelToModel responses = fold (\<lambda>(k, v) m. AList.update k v m) ?xs []"
    unfolding build_labelToModel_def zip_labels
    by (simp add: fold_map comp_def entry_of_def fromCharCode_def)
  then show ?thesis
    using fold_update_fresh [OF d, of "[]"] by simp
qed

lemma rank_all_length:
  "rank_all send prompt apiKey n rs w = (rks, w') \<Longrightarrow> length rks = length rs"
  by (induction rs arbitrary: w rks w') (auto split: prod.splits)

lemma collectRankings_returns:
  "\<exists>rks w'. collectRankings send userQuery responses apiKey w
       = (Inr \<lparr>cr_rankings = rks, cr_labelToModel = build_labelToModel responses\<rparr>, w')
     \<and> length rks = length responses"
  by (auto simp: collectRankings_def Let_def rank_all_length split: prod.splits)

lemma net_warn_invalid: "net (warn_invalid a b w) = net w"
  by (simp add: warn_invalid_def)

lemma net_calculateAggregateRankings:
  "calculateAggregateRankings rks l opts w = (agg, w') \<Longrightarrow> net w' = net w"
  by (auto simp: calculateAggregateRankings_def getAllModelStats_def Let_def
           split: prod.splits option.splits if_splits)

lemma collectRankings_labelToModel:
  assumes "length responses \<le> 65536"
  shows "\<exists>cr w'. collectRankings send userQuery responses apiKey w = (Inr cr, w')
           \<and> length (cr_rankings cr) = length responses
           \<and> cr_labelToModel cr = map (entry_of responses) [0..<length responses]"
  using collectRankings_returns [of send userQuery responses apiKey w]
    build_labelToModel_eq [OF assms] by auto

text \<open>
  Claim C7, amended. For at most 26 responses the label map returned by
  \<open>collectRankings\<close> has one entry for each response, its keys are distinct, and the
  entry at index \<open>i\<close> has the key \<open>Response\<close>, a space and the \<open>i\<close>-th capital letter, and
  names the model of the \<open>i\<close>-th response.
\<close>

theorem labelToModel_letters:
  assumes "length responses \<le> 26"
  shows "\<exists>cr w'. collectRankings send userQuery responses apiKey w = (Inr cr, w')
     \<and> length (cr_labelToModel cr) = length responses
     \<and> distinct (map fst (cr_labelToModel cr))
     \<and> (\<forall>i < length responses. 65 + i \<le> 90
           \<and> cr_labelToModel cr ! i
               = (js ''Response '' @ [65 + i],
                  \<lparr>info_modelId = modelId (responses ! i),
                   info_modelName = modelName (responses ! i)\<rparr>))"
proof -
  have le: "length responses \<le> 65536" using assms by simp
  obtain cr w' where c: "collectRankings send userQuery responses apiKey w = (Inr cr, w')"
    and l: "cr_labelToModel cr = map (entry_of responses) [0..<length responses]"
    using collectRankings_labelToModel [OF le] by blast
  have keys: "map fst (cr_labelToModel cr)
              = map (\<lambda>i. js ''Response '' @ [65 + i]) [0..<length responses]"
    using assms by (simp add: l entry_of_def)
  have "inj_on (\<lambda>i. js ''Response '' @ [65 + i]) {0..<length responses}"
    by (rule inj_onI) simp
  then have "distinct (map fst (cr_labelToModel cr))"
    unfolding keys by (simp add: distinct_map)
  moreover have "\<forall>i < length responses. 65 + i \<le> 90
           \<and> cr_labelToModel cr ! i
               = (js ''Response '' @ [65 + i],
                  \<lparr>info_modelId = modelId (responses ! i),
                   info_modelName = modelName (responses ! i)\<rparr>)"
    using assms by (auto simp: l entry_of_def)
  ultimately show ?thesis
    using c l by auto
qed

theorem labelToModel_letters_witness:
  "\<exists>cr w'. collectRankings (\<lambda>n m p k. (Inl (js ''offline''), n)) (js ''why?'')
              [\<lparr>modelId = js ''m1'', modelName = js ''One'', content = js ''because''\<rparr>,
               \<lparr>modelId = js ''m2'', modelName = js ''Two'', content = js ''just so''\<rparr>]
              (js ''key'') \<lparr>net = (), storage = None, console = []\<rparr> = (Inr cr, w')
     \<and> length (cr_labelToModel cr) = 2
     \<and> cr_labelToModel cr ! 0 = (js ''Response A'', \<lparr>info_modelId = js ''m1'', info_modelName = js ''One''\<rparr>)
     \<and> cr_labelToModel cr ! 1 = (js ''Response B'', \<lparr>info_modelId = js ''m2'', info_modelName = js ''Two''\<rparr>)"
  using labelToModel_letters
          [of "[\<lparr>modelId = js ''m1'', modelName = js ''One'', content = js ''because''\<rparr>,
                \<lparr>modelId = js ''m2'', modelName = js ''Two'', content = js ''just so''\<rparr>]"
              "\<lambda>n m p k. (Inl (js ''offline''), n)" "js ''why?''" "js ''key''"
              "\<lparr>net = (), storage = None, console = []\<rparr>"]
  by (auto simp: js_def)

text \<open>
  With 27 responses the claim as stated fails: the label of the last response is the
  bracket that follows \<open>Z\<close> in code-unit order, not a capital letter.
\<close>

theorem labelToModel_27th_counterexample:
  "(case fst (collectRankings (\<lambda>n m p k. (Inl (js ''offline''), n)) (js ''why?'')
               (replicate 27 \<lparr>modelId = js ''m'', modelName = js ''M'', content = js ''because''\<rparr>)
               (js ''key'') \<lparr>net = (), storage = None, console = []\<rparr>) of
      Inl e \<Rightarrow> False
    | Inr cr \<Rightarrow> fst (cr_labelToModel cr ! 26) = js ''Response ['')"
  using collectRankings_labelToModel
          [of "replicate 27 \<lparr>modelId = js ''m'', modelName = js ''M'', content = js ''because''\<rparr>"
              "\<lambda>n m p k. (Inl (js ''offline''), n)" "js ''why?''" "js ''key''"
              "\<lparr>net = (), storage = None, console = []\<rparr>"]
  by (auto simp: entry_of_def js_def)

text \<open>
  Claim C8, amended. With more than 26 responses \<open>collectRankings\<close> does not fail: no
  error is raised for the number of responses, and a result is returned. (Which labels
  the responses after the 26th are given is left open here.)
\<close>

theorem no_label_overflow:
  assumes "26 < length responses"
  shows "\<exists>cr w'. collectRankings send userQuery responses apiKey w = (Inr cr, w')"
  using collectRankings_returns [of send userQuery responses apiKey w] by blast

theorem no_label_overflow_witness:
  "\<exists>cr w'. collectRankings (\<lambda>n m p k. (Inl (js ''offline''), n)) (js ''why?'')
              (replicate 28 \<lparr>modelId = js ''m'', modelName = js ''M'', content = js ''because''\<rparr>)
              (js ''key'') \<lparr>net = (), storage = None, console = []\<rparr> = (Inr cr, w')"
  using no_label_overflow
          [of "replicate 28 \<lparr>modelId = js ''m'', modelName = js ''M'', content = js ''because''\<rparr>"
              "\<lambda>n m p k. (Inl (js ''offline''), n)" "js ''why?''" "js ''key''"
              "\<lparr>net = (), storage = None, console = []\<rparr>"]
  by simp

text \<open>With 27 responses the claim as stated fails: no error is raised.\<close>

theorem no_label_overflow_counterexample:
  "(case fst (collectRankings (\<lambda>n m p k. (Inl (js ''offline''), n)) (js ''why?'')
               (replicate 27 \<lparr>modelId = js ''m'', modelName = js ''M'', content = js ''because''\<rparr>)
               (js ''key'') \<lparr>net = (), storage = None, console = []\<rparr>) of
      Inl e \<Rightarrow> False
    | Inr cr \<Rightarrow> length (cr_rankings cr) = 27 \<and> length (cr_labelToModel cr) = 27)"
  using collectRankings_labelToModel
          [of "replicate 27 \<lparr>modelId = js ''m'', modelName = js ''M'', content = js ''because''\<rparr>"
              "\<lambda>n m p k. (Inl (js ''offline''), n)" "js ''why?''" "js ''key''"
              "\<lparr>net = (), storage = None, console = []\<rparr>"]
  by auto

section \<open>Properties of the synthesis\<close>

text \<open>
  Claim C9. In a run with at least two responses in which the request sent to the
  chairman fails with a message, the synthesiser returns a result whose content is
  \<open>Error synthesizing response:\<close> followed by that message, and \<open>runCouncil\<close> still
  returns a complete result: the rankings and the label map collected, and one
  ranking counted for every response.
\<close>

theorem synthesis_failure_recovered:
  assumes "2 \<le> length responses"
    and "collectRankings send userQuery responses apiKey w = (Inr cr, w1)"
    and "chairman = (case chairmanModelId of
                       Some c \<Rightarrow> if c \<noteq> [] then c else modelId (responses ! 0)
                     | None \<Rightarrow> modelId (responses ! 0))"
    and "send (net w1) chairman (synthesis_prompt userQuery responses (cr_rankings cr)) apiKey
         = (Inl message, n')"
  shows "\<exists>res w'. runCouncil send userQuery responses apiKey chairmanModelId opts w = (Inr res, w')
           \<and> synthesis res = \<lparr>syn_modelId = chairman, syn_modelName = js ''Chairman'',
                   syn_content = js ''Error synthesizing response: '' @ message\<rparr>
           \<and> rankings res = cr_rankings cr
           \<and> labelToModel res = cr_labelToModel cr
           \<and> totalRankings (rankingValidation res) = length responses"
proof -
  let ?rks = "cr_rankings cr"
  let ?chosen = "if filter isValid ?rks \<noteq> [] then filter isValid ?rks else ?rks"
  let ?w2 = "warn_invalid (length (filter (\<lambda>r. \<not> isValid r) ?rks)) (length ?rks) w1"
  let ?syn = "\<lparr>syn_modelId = chairman, syn_modelName = js ''Chairman'',
               syn_content = js ''Error synthesizing response: '' @ message\<rparr>"
  obtain agg w3 where agg: "calculateAggregateRankings ?chosen (cr_labelToModel cr) opts ?w2 = (agg, w3)"
    by (cases "calculateAggregateRankings ?chosen (cr_labelToModel cr) opts ?w2") simp
  have net3: "net w3 = net w1"
    using net_calculateAggregateRankings [OF agg] by (simp add: net_warn_invalid)
  have len: "length ?rks = length responses"
    using collectRankings_returns [of send userQuery responses apiKey w] assms(2) by auto
  obtain w4 where syn: "synthesizeFinal send userQuery responses ?rks chairman apiKey w3 = (?syn, w4)"
    using assms(4) net3 by (simp add: synthesizeFinal_def)
  have small: "(length responses < 2) = False"
    using assms(1) by simp
  obtain res where "runCouncil send userQuery responses apiKey chairmanModelId opts w = (Inr res, w4)"
     and "synthesis res = ?syn" and "rankings res = ?rks" and "labelToModel res = cr_labelToModel cr"
     and "totalRankings (rankingValidation res) = length ?rks"
    unfolding runCouncil_def Let_def
    by (simp only: small if_False assms(2) assms(3) [symmetric] prod.case sum.case agg syn
          council_result.simps ranking_validation.simps)
  then show ?thesis
    using len by auto
qed

theorem synthesis_failure_recovered_witness:
  "\<exists>res w'. runCouncil (\<lambda>n m p k. (Inl (js ''offline''), n)) (js ''why?'')
              [\<lparr>modelId = js ''m1'', modelName = js ''One'', content = js ''because''\<rparr>,
               \<lparr>modelId = js ''m2'', modelName = js ''Two'', content = js ''just so''\<rparr>]
              (js ''key'') None \<lparr>useWeightedAggregation = None, useConfidenceWeighting = None\<rparr>
              \<lparr>net = (), storage = None, console = []\<rparr> = (Inr res, w')
     \<and> synthesis res = \<lparr>syn_modelId = js ''m1'', syn_modelName = js ''Chairman'',
                          syn_content = js ''Error synthesizing response: offline''\<rparr>
     \<and> totalRankings (rankingValidation res) = 2"
proof -
  let ?send = "\<lambda>(n::unit) (m::jsstring) (p::jsstring) (k::jsstring). (Inl (js ''offline'') :: jsstring + jsstring, n)"
  let ?rs = "[\<lparr>modelId = js ''m1'', modelName = js ''One'', content = js ''because''\<rparr>,
              \<lparr>modelId = js ''m2'', modelName = js ''Two'', content = js ''just so''\<rparr>]"
  let ?w = "\<lparr>net = (), storage = None, console = []\<rparr>"
  obtain cr w1 where c: "collectRankings ?send (js ''why?'') ?rs (js ''key'') ?w = (Inr cr, w1)"
    using collectRankings_returns [of ?send "js ''why?''" ?rs "js ''key''" ?w] by blast
  show ?thesis
    using synthesis_failure_recovered
            [of ?rs ?send "js ''why?''" "js ''key''" ?w cr w1 "js ''m1''" None "js ''offline''" "()"
                "\<lparr>useWeightedAggregation = None, useConfidenceWeighting = None\<rparr>"] c
    by (auto simp: js_def)
qed

section \<open>Properties of the numbers\<close>

text \<open>
  Rules to evaluate double arithmetic on given numbers, and the exactness of the
  arithmetic on small integers: every natural number below \<open>2^53\<close> is a double, so sums
  and products of such numbers that stay below \<open>2^53\<close> are not rounded.
\<close>

lemmas fl_eval = js_num_def fl_def rne_def ulp_def pow2_def exponent_def expo_up.simps
  expo_down.simps js_round2_def js_pow2_def js_sub_def js_nat_def inf_of_def Let_def
  arithmetic_mean_def population_variance_def double_sum_def

text \<open>
  \<open>fl x\<close> is a multiple of \<open>ulp x\<close> that is at most half of it away from \<open>x\<close>; and the model
  gives the familiar doubles for \<open>0.1\<close> and for \<open>0.1 + 0.2\<close>, which is not \<open>0.3\<close>.
\<close>

lemma rne_error: "\<bar>of_int (rne y) - y\<bar> \<le> 1 / 2"
proof -
  have "of_int \<lfloor>y\<rfloor> \<le> y" "y < of_int \<lfloor>y\<rfloor> + 1"
    by linarith+
  then show ?thesis
    by (auto simp: rne_def Let_def)
qed

lemma pow2_pos: "0 < pow2 k"
  by (simp add: pow2_def)

lemma fl_error: "\<bar>fl x - x\<bar> \<le> ulp x / 2"
proof -
  have u: "0 < ulp x"
    by (simp add: ulp_def pow2_pos)
  have "fl x - x = (of_int (rne (x / ulp x)) - x / ulp x) * ulp x"
    using u by (simp add: fl_def left_diff_distrib)
  then have "\<bar>fl x - x\<bar> = \<bar>of_int (rne (x / ulp x)) - x / ulp x\<bar> * ulp x"
    using u by (simp add: abs_mult)
  also have "\<dots> \<le> 1 / 2 * ulp x"
    using rne_error [of "x / ulp x"] u by (intro mult_right_mono) simp_all
  finally show ?thesis
    by simp
qed

lemma double_examples:
  "js_num (1 / 10) = Fin (3602879701896397 / 36028797018963968)"
  "js_add (js_num (1 / 10)) (js_num (2 / 10)) = Fin (1351079888211149 / 4503599627370496)"
  "js_add (js_num (1 / 10)) (js_num (2 / 10)) \<noteq> js_num (3 / 10)"
  by (simp_all add: js_num_def fl_def rne_def ulp_def pow2_def exponent_def expo_up.simps
        expo_down.simps Let_def)

lemma expo_up_nonneg: "0 \<le> expo_up x"
  by (induction x rule: expo_up.induct) (subst expo_up.simps, simp)

lemma expo_up_le: "x < 2 ^ Suc k \<Longrightarrow> expo_up x \<le> int k"
proof (induction k arbitrary: x)
  case 0
  then show ?case by (subst expo_up.simps) simp
next
  case (Suc k)
  show ?case
  proof (cases "x < 2")
    case True
    then show ?thesis by (subst expo_up.simps) simp
  next
    case False
    have "x / 2 < 2 ^ Suc k"
      using Suc.prems by simp
    then have "expo_up (x / 2) \<le> int k"
      by (rule Suc.IH)
    then show ?thesis
      using False by (subst expo_up.simps) simp
  qed
qed

lemma rne_of_int: "rne (of_int k) = k"
  by (simp add: rne_def)

lemma ulp_nat:
  assumes "n < 2 ^ 53"
  shows "\<exists>m. ulp (real n) = 1 / 2 ^ m"
proof (cases "n = 0")
  case True
  have "expo_down 0 = 0"
    by (subst expo_down.simps) simp
  then have "ulp (real n) = 1 / 2 ^ 52"
    using True by (simp add: ulp_def exponent_def pow2_def)
  then show ?thesis by blast
next
  case False
  define e where "e = expo_up (real n)"
  have "real n < 2 ^ Suc 52"
    using assms by (metis numeral_eq_Suc of_nat_less_numeral_power_cancel_iff pred_numeral_simps(3) Suc_eq_plus1 add.commute)
  then have hi: "e \<le> 52"
    unfolding e_def using expo_up_le [of "real n" 52] by simp
  have lo: "0 \<le> e"
    unfolding e_def by (rule expo_up_nonneg)
  have ex: "exponent (real n) = e"
    using False by (simp add: exponent_def e_def)
  have "ulp (real n) = 1 / 2 ^ nat (52 - e)"
  proof (cases "e = 52")
    case True
    then show ?thesis by (simp add: ulp_def ex pow2_def)
  next
    case False
    then have "e - 52 < 0" using hi by simp
    moreover have "max e (- 1022) = e" using lo by simp
    ultimately show ?thesis by (simp add: ulp_def ex pow2_def)
  qed
  then show ?thesis by blast
qed

lemma fl_nat:
  assumes "n < 2 ^ 53"
  shows "fl (real n) = real n"
proof -
  obtain m where u: "ulp (real n) = 1 / 2 ^ m"
    using ulp_nat [OF assms] by blast
  have "real n / ulp (real n) = of_int (int n * 2 ^ m)"
    by (simp add: u)
  then have "rne (real n / ulp (real n)) = int n * 2 ^ m"
    by (simp only: rne_of_int)
  then show ?thesis
    by (simp add: fl_def u)
qed

lemma js_num_nat:
  assumes "n < 2 ^ 53"
  shows "js_num (real n) = js_nat n"
proof -
  have "real n < 2 ^ 53"
    using assms by (metis of_nat_less_numeral_power_cancel_iff)
  also have "(2::real) ^ 53 \<le> 2 ^ 1024"
    by (rule power_increasing) simp_all
  finally show ?thesis
    by (simp add: js_num_def fl_nat [OF assms] pow2_def js_nat_def)
qed

lemma js_add_nat: "a + b < 2 ^ 53 \<Longrightarrow> js_add (js_nat a) (js_nat b) = js_nat (a + b)"
  using js_num_nat [of "a + b"] by (simp add: js_nat_def)

lemma js_mul_one: "p < 2 ^ 53 \<Longrightarrow> js_mul (js_nat p) (Fin 1) = js_nat p"
  using js_num_nat [of p] by (simp add: js_nat_def)

lemma js_gt_nat: "js_gt (js_nat n) (Fin 0) = (0 < n)"
  by (simp add: js_nat_def)


section \<open>Properties of the aggregation\<close>

lemma positions_from_Nil: "positions_from n l [] = []"
  by (simp add: positions_from_def)

lemma positions_from_Cons:
  "positions_from n l (x # xs) = (if x = l then [n + 1] else []) @ positions_from (Suc n) l xs"
  by (simp add: positions_from_def)

lemma stored_update:
  "stored (AList.update k v al) l = (if l = k then v else stored al l)"
  by (simp add: stored_def update_conv')

lemma stored_map_entry:
  "stored (AList.map_entry k f al) l
   = (if l = k \<and> map_of al k \<noteq> None then f (stored al l) else stored al l)"
  by (auto simp: stored_def map_of_map_entry split: option.splits)

lemma stored_fresh:
  "stored (if map_of al k = None then AList.update k [] al else al) l = stored al l"
  by (simp add: stored_update) (simp add: stored_def)

lemma present_fresh:
  "map_of (if map_of al k = None then AList.update k [] al else al) k \<noteq> None"
  by (simp add: update_conv')

lemma effectiveWeight_plain: "effectiveWeight_of False mw cs lbl = mw"
  by (simp add: effectiveWeight_of_def split: option.splits)

lemma stored_add_position:
  "stored (fst (add_position False mw cs pos lbl acc)) l
   = stored (fst acc) l @ (if l = lbl then [\<lparr>position = pos + 1, weight = mw\<rparr>] else [])"
  unfolding add_position_def Let_def fst_conv effectiveWeight_plain
  by (simp only: stored_map_entry present_fresh stored_fresh) simp

lemma stored_add_positions:
  "stored (fst (add_positions False mw cs pos order acc)) l
   = stored (fst acc) l @ map (\<lambda>p. \<lparr>position = p, weight = mw\<rparr>) (positions_from pos l order)"
  by (induction order arbitrary: pos acc)
     (simp_all add: positions_from_Nil positions_from_Cons stored_add_position)

lemma stored_add_ranking:
  "stored (fst (add_ranking False False sm rk acc)) l
   = stored (fst acc) l
     @ map (\<lambda>p. \<lparr>position = p, weight = Fin 1\<rparr>) (positions_in l (parsedRanking rk))"
  by (simp add: add_ranking_def stored_add_positions positions_in_def modelWeight_of_def
        positions_from_Nil)

lemma stored_fold_add_ranking:
  "stored (fst (fold (add_ranking False False sm) rks acc)) l
   = stored (fst acc) l @ map (\<lambda>p. \<lparr>position = p, weight = Fin 1\<rparr>) (label_positions l rks)"
  by (induction rks arbitrary: acc) (simp_all add: label_positions_def stored_add_ranking)

lemma distinct_add_position:
  "distinct (map fst (fst acc)) \<Longrightarrow> distinct (map fst (fst (add_position cw mw cs pos lbl acc)))"
  by (simp add: add_position_def Let_def distinct_update distinct_map_entry)

lemma distinct_add_positions:
  "distinct (map fst (fst acc)) \<Longrightarrow> distinct (map fst (fst (add_positions cw mw cs pos order acc)))"
  by (induction order arbitrary: pos acc) (simp_all add: distinct_add_position)

lemma distinct_add_ranking:
  "distinct (map fst (fst acc)) \<Longrightarrow> distinct (map fst (fst (add_ranking wt cw sm rk acc)))"
  by (simp add: add_ranking_def distinct_add_positions)

lemma distinct_fold_add_ranking:
  "distinct (map fst (fst acc)) \<Longrightarrow> distinct (map fst (fst (fold (add_ranking wt cw sm) rks acc)))"
  by (induction rks arbitrary: acc) (simp_all add: distinct_add_ranking)

lemma set_js_insort: "set (js_insort after x xs) = insert x (set xs)"
  by (induction xs) auto

lemma set_js_sort: "set (js_sort after xs) = set xs"
  unfolding js_sort_def by (induction xs) (simp_all add: set_js_insort)

text \<open>Sums of unit votes are exact below \<open>2^53\<close>.\<close>

lemma plain_weight_sum:
  "s + length ps < 2 ^ 53 \<Longrightarrow>
   fold (\<lambda>wp sum. js_add sum (weight wp)) (map (\<lambda>p. \<lparr>position = p, weight = Fin 1\<rparr>) ps) (js_nat s)
   = js_nat (s + length ps)"
proof (induction ps arbitrary: s)
  case Nil
  then show ?case by simp
next
  case (Cons p ps)
  have "js_add (js_nat s) (Fin 1) = js_nat (Suc s)"
    using js_add_nat [of s 1] Cons.prems by (simp add: js_nat_def)
  then show ?case
    using Cons.IH [of "Suc s"] Cons.prems by simp
qed

lemma plain_position_sum:
  "s + sum_list ps < 2 ^ 53 \<Longrightarrow>
   fold (\<lambda>wp sum. js_add sum (js_mul (js_nat (position wp)) (weight wp)))
     (map (\<lambda>p. \<lparr>position = p, weight = Fin 1\<rparr>) ps) (js_nat s)
   = js_nat (s + sum_list ps)"
proof (induction ps arbitrary: s)
  case Nil
  then show ?case by simp
next
  case (Cons p ps)
  have "p < 2 ^ 53" "s + p < 2 ^ 53"
    using Cons.prems by simp_all
  then have "js_add (js_nat s) (js_mul (js_nat p) (Fin 1)) = js_nat (s + p)"
    by (simp add: js_mul_one js_add_nat)
  then show ?case
    using Cons.IH [of "s + p"] Cons.prems by (simp add: add.assoc)
qed

lemma positions_from_pos: "p \<in> set (positions_from n l xs) \<Longrightarrow> 0 < p"
  by (induction xs arbitrary: n) (auto simp: positions_from_Nil positions_from_Cons split: if_splits)

lemma label_positions_pos: "p \<in> set (label_positions l rks) \<Longrightarrow> 0 < p"
  by (auto simp: label_positions_def positions_in_def dest: positions_from_pos)

lemma length_le_sum_list: "(\<And>p. p \<in> set ps \<Longrightarrow> 0 < p) \<Longrightarrow> length ps \<le> sum_list (ps :: nat list)"
proof (induction ps)
  case Nil
  then show ?case by simp
next
  case (Cons p ps)
  have "0 < p" using Cons.prems by simp
  moreover have "length ps \<le> sum_list ps" using Cons by simp
  ultimately show ?case by simp
qed

lemma in_aggregate_entry_of:
  assumes "e \<in> set (aggregate_entry_of l2m cbl (lbl, wps))"
  shows "label e = lbl \<and> lbl \<in> fst ` set l2m \<and> wps \<noteq> []
       \<and> avgRank e
         = js_round2
             (if js_gt (fold (\<lambda>wp sum. js_add sum (weight wp)) wps (Fin 0)) (Fin 0)
              then js_div
                     (fold (\<lambda>wp sum. js_add sum (js_mul (js_nat (position wp)) (weight wp))) wps (Fin 0))
                     (fold (\<lambda>wp sum. js_add sum (weight wp)) wps (Fin 0))
              else Fin 0)"
proof (cases "map_of l2m lbl")
  case None
  then show ?thesis using assms by (simp add: aggregate_entry_of_def)
next
  case (Some info)
  then have "lbl \<in> fst ` set l2m"
    by (metis fst_conv image_eqI map_of_SomeD)
  then show ?thesis
    using assms Some
    by (auto simp: aggregate_entry_of_def Let_def split: if_splits)
qed

lemma aggregate_with_set:
  "set (aggregate_with stats wt cw rks l2m)
   = (\<Union>p \<in> set (fst (fold (add_ranking wt cw (map_of (rev (map (\<lambda>s. (ms_modelId s, s)) stats)))) rks ([], []))).
        set (aggregate_entry_of l2m
              (snd (fold (add_ranking wt cw (map_of (rev (map (\<lambda>s. (ms_modelId s, s)) stats)))) rks ([], [])))
              p))"
  by (simp add: aggregate_with_def Let_def case_prod_beta set_js_sort)

lemma aggregate_entry_of_present:
  assumes "map_of l2m lbl \<noteq> None" and "wps \<noteq> []"
  shows "\<exists>e. aggregate_entry_of l2m cbl (lbl, wps) = [e] \<and> label e = lbl"
  using assms by (auto simp: aggregate_entry_of_def Let_def split: option.splits)

lemma stored_of_member:
  "distinct (map fst al) \<Longrightarrow> (k, v) \<in> set al \<Longrightarrow> stored al k = v"
  by (simp add: stored_def)

lemma member_of_stored:
  "stored al k \<noteq> [] \<Longrightarrow> (k, stored al k) \<in> set al"
  by (auto simp: stored_def split: option.splits dest: map_of_SomeD)

lemma aggregate_with_plain:
  assumes "e \<in> set (aggregate_with stats False False rks l2m)"
    and "\<forall>l \<in> fst ` set l2m. sum_list (label_positions l rks) < 2 ^ 53"
  shows "label e \<in> fst ` set l2m \<and> label_positions (label e) rks \<noteq> []
       \<and> avgRank e = js_round2 (arithmetic_mean (label_positions (label e) rks))"
proof -
  let ?sm = "map_of (rev (map (\<lambda>s. (ms_modelId s, s)) stats))"
  let ?acc = "fold (add_ranking False False ?sm) rks ([], [])"
  obtain lbl wps where mem: "(lbl, wps) \<in> set (fst ?acc)"
    and e: "e \<in> set (aggregate_entry_of l2m (snd ?acc) (lbl, wps))"
    using assms(1) unfolding aggregate_with_set by auto
  have d: "distinct (map fst (fst ?acc))"
    by (rule distinct_fold_add_ranking) simp
  let ?ps = "label_positions lbl rks"
  have wps: "wps = map (\<lambda>p. \<lparr>position = p, weight = Fin 1\<rparr>) ?ps"
    using stored_of_member [OF d mem] stored_fold_add_ranking [of ?sm rks "([], [])" lbl]
    by (simp add: stored_def)
  have facts: "label e = lbl" "lbl \<in> fst ` set l2m" "wps \<noteq> []"
    "avgRank e
     = js_round2
         (if js_gt (fold (\<lambda>wp sum. js_add sum (weight wp)) wps (Fin 0)) (Fin 0)
          then js_div
                 (fold (\<lambda>wp sum. js_add sum (js_mul (js_nat (position wp)) (weight wp))) wps (Fin 0))
                 (fold (\<lambda>wp sum. js_add sum (weight wp)) wps (Fin 0))
          else Fin 0)"
    using in_aggregate_entry_of [OF e] by simp_all
  have ne: "?ps \<noteq> []"
    using facts(3) wps by simp
  have small: "sum_list ?ps < 2 ^ 53"
    using assms(2) facts(2) by blast
  have "length ?ps \<le> sum_list ?ps"
    by (rule length_le_sum_list) (rule label_positions_pos)
  then have count: "0 + length ?ps < 2 ^ 53"
    using small by simp
  have zero: "Fin 0 = js_nat 0"
    by (simp add: js_nat_def)
  have tw: "fold (\<lambda>wp sum. js_add sum (weight wp)) wps (Fin 0) = js_nat (length ?ps)"
    unfolding wps zero using plain_weight_sum [OF count] by simp
  have ws: "fold (\<lambda>wp sum. js_add sum (js_mul (js_nat (position wp)) (weight wp))) wps (Fin 0)
            = js_nat (sum_list ?ps)"
    unfolding wps zero using plain_position_sum [of 0 ?ps] small by simp
  have "avgRank e = js_round2 (arithmetic_mean ?ps)"
    unfolding facts(4) tw ws using ne by (simp add: arithmetic_mean_def js_gt_nat)
  then show ?thesis
    using facts(1,2) ne by simp
qed

lemma aggregate_with_complete:
  assumes "l \<in> fst ` set l2m" and "label_positions l rks \<noteq> []"
  shows "\<exists>e \<in> set (aggregate_with stats False False rks l2m). label e = l"
proof -
  let ?sm = "map_of (rev (map (\<lambda>s. (ms_modelId s, s)) stats))"
  let ?acc = "fold (add_ranking False False ?sm) rks ([], [])"
  have st: "stored (fst ?acc) l = map (\<lambda>p. \<lparr>position = p, weight = Fin 1\<rparr>) (label_positions l rks)"
    using stored_fold_add_ranking [of ?sm rks "([], [])" l] by (simp add: stored_def)
  then have ne: "stored (fst ?acc) l \<noteq> []"
    using assms(2) by simp
  then have mem: "(l, stored (fst ?acc) l) \<in> set (fst ?acc)"
    by (rule member_of_stored)
  have "map_of l2m l \<noteq> None"
    using assms(1) by (simp add: map_of_eq_None_iff)
  then obtain e where "aggregate_entry_of l2m (snd ?acc) (l, stored (fst ?acc) l) = [e]" "label e = l"
    using aggregate_entry_of_present [OF _ ne] by blast
  then have "e \<in> set (aggregate_with stats False False rks l2m)"
    using mem unfolding aggregate_with_set by force
  then show ?thesis
    using \<open>label e = l\<close> by blast
qed

lemma calculateAggregateRankings_plain:
  assumes "useWeightedAggregation opts = Some False" and "useConfidenceWeighting opts = Some False"
  shows "calculateAggregateRankings rks l2m opts w = (aggregate_with [] False False rks l2m, w)"
  using assms by (simp add: calculateAggregateRankings_def)

lemmas spec_eval = label_positions_def positions_in_def positions_from_def plain_ranking_def
  valid_rankings_def total_variance_def spec_consensus_def two_labels_def three_labels_def
  four_labels_def response_labels_def spaced_def js_def

lemma example_votes:
  "fold (add_ranking False False Map.empty)
     [plain_ranking (js ''m1'') [js ''Response A'', js ''Response B'', js ''Response C''],
      plain_ranking (js ''m2'') [js ''Response B'', js ''Response A'', js ''Response C''],
      plain_ranking (js ''m3'') [js ''Response A'', js ''Response C'', js ''Response B'']]
     ([], [])
   = ([(js ''Response A'', [\<lparr>position = 1, weight = Fin 1\<rparr>, \<lparr>position = 2, weight = Fin 1\<rparr>, \<lparr>position = 1, weight = Fin 1\<rparr>]),
       (js ''Response B'', [\<lparr>position = 2, weight = Fin 1\<rparr>, \<lparr>position = 1, weight = Fin 1\<rparr>, \<lparr>position = 3, weight = Fin 1\<rparr>]),
       (js ''Response C'', [\<lparr>position = 3, weight = Fin 1\<rparr>, \<lparr>position = 3, weight = Fin 1\<rparr>, \<lparr>position = 2, weight = Fin 1\<rparr>])],
      [(js ''Response A'', [MEDIUM, MEDIUM, MEDIUM]),
       (js ''Response B'', [MEDIUM, MEDIUM, MEDIUM]),
       (js ''Response C'', [MEDIUM, MEDIUM, MEDIUM])])"
  by (simp add: add_ranking_def add_position_def effectiveWeight_of_def truthy_lookup_def
        modelWeight_of_def MEDIUM_def plain_ranking_def js_def Let_def)

lemma aggregate_with_no_stats:
  "aggregate_with [] wt cw rks l2m
   = js_sort (\<lambda>a b. js_gt (js_sub (avgRank a) (avgRank b)) (Fin 0))
       (concat (map (aggregate_entry_of l2m (snd (fold (add_ranking wt cw Map.empty) rks ([], []))))
                    (fst (fold (add_ranking wt cw Map.empty) rks ([], [])))))"
  by (simp add: aggregate_with_def case_prod_beta Let_def)

lemma example_ranks:
  "map (\<lambda>e. (label e, avgRank e))
     (fst (calculateAggregateRankings
        [plain_ranking (js ''m1'') [js ''Response A'', js ''Response B'', js ''Response C''],
         plain_ranking (js ''m2'') [js ''Response B'', js ''Response A'', js ''Response C''],
         plain_ranking (js ''m3'') [js ''Response A'', js ''Response C'', js ''Response B'']]
        three_labels plain_options quiet_world))
   = [(js ''Response A'', js_num (133 / 100)), (js ''Response B'', Fin 2),
      (js ''Response C'', js_num (267 / 100))]"
proof -
  have opts: "useWeightedAggregation plain_options = Some False"
    "useConfidenceWeighting plain_options = Some False"
    by (simp_all add: plain_options_def)
  show ?thesis
    unfolding calculateAggregateRankings_plain [OF opts] fst_conv aggregate_with_no_stats
      example_votes snd_conv
    by (simp add: aggregate_entry_of_def three_labels_def MEDIUM_def js_def js_sort_def fl_eval)
qed

lemma concat_replicate_single: "concat (replicate n [x]) = replicate n x"
  by (induction n) simp_all

text \<open>
  The average confidence of one \<open>HIGH\<close> and three \<open>MEDIUM\<close> votes: the doubles give
  \<open>(1 + 3 * 0.7) / 4 * 100 = 77.49999999999999\<close>, which is rounded to 0.77.
\<close>

lemma example_confidence:
  "map avgConfidence
     (aggregate_entry_of two_labels
        [(js ''Response A'', [js ''HIGH'', js ''MEDIUM'', js ''MEDIUM'', js ''MEDIUM''])]
        (js ''Response A'', replicate 4 \<lparr>position = 1, weight = Fin 1\<rparr>))
   = [js_num (77 / 100)]"
  by (simp add: aggregate_entry_of_def two_labels_def js_def fl_eval)

text \<open>
  Claim C4, amended. With both weightings switched off, every entry that
  \<open>calculateAggregateRankings\<close> reports carries a label of the label map that has
  positions, and its rank is the arithmetic mean of the 1-based positions of that label
  over all the rankings, rounded to two decimals the way the code does it, in double
  arithmetic: the mean is the double quotient of the sum of the positions by their
  number, and \<open>js_round2\<close> multiplies it by 100, rounds the double product to the nearest
  integer (a half upwards) and divides by 100. Every label of the label map that has
  positions is reported. The labels are those of \<open>response_labels\<close>, and the sum of the
  positions of a label stays below \<open>2^53\<close>.
\<close>

theorem unweighted_rank_is_rounded_mean:
  assumes "useWeightedAggregation opts = Some False" and "useConfidenceWeighting opts = Some False"
    and "response_labels rks l2m"
    and "\<forall>l \<in> fst ` set l2m. sum_list (label_positions l rks) < 2 ^ 53"
  shows "(\<forall>e \<in> set (fst (calculateAggregateRankings rks l2m opts w)).
            label e \<in> fst ` set l2m \<and> label_positions (label e) rks \<noteq> []
          \<and> avgRank e = js_round2 (arithmetic_mean (label_positions (label e) rks)))
       \<and> (\<forall>l \<in> fst ` set l2m. label_positions l rks \<noteq> [] \<longrightarrow>
            (\<exists>e \<in> set (fst (calculateAggregateRankings rks l2m opts w)). label e = l))"
  unfolding calculateAggregateRankings_plain [OF assms(1,2)] fst_conv
  using aggregate_with_plain [OF _ assms(4)] aggregate_with_complete by blast

text \<open>
  The theorem at 39 rankings that put \<open>Response A\<close> first and one that puts it second:
  the mean of the positions is 41/40, the double product with 100 is
  \<open>102.49999999999999\<close>, and the rank reported is 1.02.
\<close>

theorem unweighted_rank_is_rounded_mean_witness:
  "useWeightedAggregation plain_options = Some False
   \<and> useConfidenceWeighting plain_options = Some False
   \<and> response_labels
        (replicate 39 (plain_ranking (js ''m1'') [js ''Response A'', js ''Response B''])
         @ [plain_ranking (js ''m2'') [js ''Response B'', js ''Response A'']])
        two_labels
   \<and> (\<exists>e \<in> set (fst (calculateAggregateRankings
                 (replicate 39 (plain_ranking (js ''m1'') [js ''Response A'', js ''Response B''])
                  @ [plain_ranking (js ''m2'') [js ''Response B'', js ''Response A'']])
                 two_labels plain_options quiet_world)).
          label e = js ''Response A'' \<and> avgRank e = js_num (102 / 100))"
proof -
  let ?rks = "replicate 39 (plain_ranking (js ''m1'') [js ''Response A'', js ''Response B''])
              @ [plain_ranking (js ''m2'') [js ''Response B'', js ''Response A'']]"
  have opts: "useWeightedAggregation plain_options = Some False"
    "useConfidenceWeighting plain_options = Some False"
    by (simp_all add: plain_options_def)
  have lbls: "response_labels ?rks two_labels"
    by (simp add: spec_eval list_all_iff)
  have psA: "label_positions (js ''Response A'') ?rks = replicate 39 1 @ [2]"
    by (simp add: spec_eval concat_replicate_single)
  have psB: "label_positions (js ''Response B'') ?rks = replicate 39 2 @ [1]"
    by (simp add: spec_eval concat_replicate_single)
  have small: "\<forall>l \<in> fst ` set two_labels. sum_list (label_positions l ?rks) < 2 ^ 53"
    unfolding two_labels_def by (simp add: psA psB sum_list_replicate)
  have key: "js ''Response A'' \<in> fst ` set two_labels"
    by (simp add: two_labels_def)
  have rounded: "js_round2 (arithmetic_mean (replicate 39 1 @ [2])) = js_num (102 / 100)"
    by (simp add: arithmetic_mean_def sum_list_replicate fl_eval)
  have ne: "label_positions (js ''Response A'') ?rks \<noteq> []"
    unfolding psA by simp
  show ?thesis
    using unweighted_rank_is_rounded_mean [OF opts lbls small, of quiet_world] key opts lbls ne
    unfolding psA [symmetric] rounded [symmetric] by (metis psA)
qed

text \<open>
  The claim as stated fails where the mean has more than two decimals: the positions
  1, 2 and 1 of \<open>Response A\<close> have the mean 4/3, and the rank reported is the double 1.33,
  which is neither 4/3 nor the double nearest to it.
\<close>

theorem unweighted_rank_counterexample:
  "map (\<lambda>e. (label e, avgRank e))
     (fst (calculateAggregateRankings
        [plain_ranking (js ''m1'') [js ''Response A'', js ''Response B'', js ''Response C''],
         plain_ranking (js ''m2'') [js ''Response B'', js ''Response A'', js ''Response C''],
         plain_ranking (js ''m3'') [js ''Response A'', js ''Response C'', js ''Response B'']]
        three_labels plain_options quiet_world))
   = [(js ''Response A'', js_num (133 / 100)), (js ''Response B'', Fin 2),
      (js ''Response C'', js_num (267 / 100))]
   \<and> arithmetic_mean (label_positions (js ''Response A'')
        [plain_ranking (js ''m1'') [js ''Response A'', js ''Response B'', js ''Response C''],
         plain_ranking (js ''m2'') [js ''Response B'', js ''Response A'', js ''Response C''],
         plain_ranking (js ''m3'') [js ''Response A'', js ''Response C'', js ''Response B'']])
     = js_num (4 / 3)
   \<and> js_num (133 / 100) \<noteq> js_num (4 / 3)
   \<and> js_num (133 / 100) \<noteq> Fin (4 / 3)"
  by (simp only: example_ranks) (simp add: spec_eval fl_eval)

section \<open>Properties of the disagreement analysis\<close>

lemma map_fst_map_entry: "map fst (AList.map_entry k f al) = map fst al"
  by (induction al) auto

lemma map_fst_note_position: "map fst (note_position il pm) = map fst pm"
  by (cases il) (simp add: note_position_def map_fst_map_entry)

lemma map_of_note_position:
  "map_of (note_position (i, lbl) pm) l
   = map_option (\<lambda>ps. ps @ (if l = lbl then [i + 1] else [])) (map_of pm l)"
  by (cases "map_of pm l") (auto simp: note_position_def map_of_map_entry)

lemma map_fst_fold_note_position: "map fst (fold note_position ils pm) = map fst pm"
  by (induction ils arbitrary: pm) (simp_all add: map_fst_note_position)

lemma map_of_fold_note_position:
  "map_of (fold note_position (enumerate n order) pm) l
   = map_option (\<lambda>ps. ps @ positions_from n l order) (map_of pm l)"
proof (induction order arbitrary: n pm)
  case Nil
  then show ?case by (simp add: positions_from_Nil option.map_ident)
next
  case (Cons x xs)
  show ?case
    by (simp add: Cons.IH map_of_note_position positions_from_Cons option.map_comp comp_def)
qed

lemma map_of_initial:
  "map_of (fold (\<lambda>lbl pm. AList.update lbl [] pm) ls acc) l
   = (if l \<in> set ls then Some [] else map_of acc l)"
  by (induction ls arbitrary: acc) (auto simp: update_conv')

lemma initial_matrix:
  assumes "distinct ls"
  shows "fold (\<lambda>lbl pm. AList.update lbl [] pm) ls [] = map (\<lambda>l. (l, [])) ls"
proof -
  have "distinct (map fst (map (\<lambda>l. (l, [])) ls))"
    using assms by (simp add: comp_def)
  then have "fold (\<lambda>(k, v) m. AList.update k v m) (map (\<lambda>l. (l, [])) ls) [] = [] @ map (\<lambda>l. (l, [])) ls"
    by (rule fold_update_fresh) simp
  then show ?thesis
    by (simp add: fold_map comp_def)
qed

lemma map_fst_fold_rankings:
  "map fst (fold (\<lambda>rk pm. fold note_position (enumerate 0 (parsedRanking rk)) pm) rks pm) = map fst pm"
  by (induction rks arbitrary: pm) (simp_all add: map_fst_fold_note_position)

lemma map_of_fold_rankings:
  "map_of (fold (\<lambda>rk pm. fold note_position (enumerate 0 (parsedRanking rk)) pm) rks pm) l
   = map_option (\<lambda>ps. ps @ label_positions l rks) (map_of pm l)"
proof (induction rks arbitrary: pm)
  case Nil
  then show ?case by (simp add: label_positions_def option.map_ident)
next
  case (Cons rk rks)
  show ?case
    by (simp add: Cons.IH map_of_fold_note_position label_positions_def positions_in_def
          option.map_comp comp_def)
qed

lemma map_of_positionMatrix:
  "map_of (build_positionMatrix labels rks) l
   = (if l \<in> set labels then Some (label_positions l rks) else None)"
  by (simp add: build_positionMatrix_def map_of_fold_rankings map_of_initial)

lemma keys_positionMatrix:
  "distinct labels \<Longrightarrow> map fst (build_positionMatrix labels rks) = labels"
  by (simp add: build_positionMatrix_def map_fst_fold_rankings initial_matrix comp_def)

lemma fold_variances:
  assumes "distinct ls" and "set ls \<inter> fst ` set acc = {}"
    and "\<forall>l \<in> set ls. map_of pm l = Some (P l)"
  shows "fold (\<lambda>lbl vs. case map_of pm lbl of
                          None \<Rightarrow> vs
                        | Some ps \<Rightarrow> if ps = [] then vs else AList.update lbl (stats_of ps) vs)
           ls acc
         = acc @ map (\<lambda>l. (l, stats_of (P l))) (filter (\<lambda>l. P l \<noteq> []) ls)"
  using assms
proof (induction ls arbitrary: acc)
  case Nil
  then show ?case by simp
next
  case (Cons x xs)
  have x: "map_of pm x = Some (P x)" and fresh: "x \<notin> fst ` set acc"
    using Cons.prems by auto
  show ?case
  proof (cases "P x = []")
    case True
    then show ?thesis
      using Cons.prems x by (simp add: Cons.IH)
  next
    case False
    have "set xs \<inter> fst ` set (acc @ [(x, stats_of (P x))]) = {}"
      using Cons.prems by auto
    then show ?thesis
      using Cons.prems x False fresh by (simp add: Cons.IH update_fresh)
  qed
qed

lemma build_variances_eq:
  assumes "distinct labels"
  shows "build_variances labels (build_positionMatrix labels rks)
         = map (\<lambda>l. (l, stats_of (label_positions l rks)))
               (filter (\<lambda>l. label_positions l rks \<noteq> []) labels)"
  unfolding build_variances_def
  using fold_variances [OF assms, of "[]" "build_positionMatrix labels rks" "\<lambda>l. label_positions l rks"]
  by (simp add: map_of_positionMatrix)

lemma variance_stats_of: "variance (stats_of ps) = population_variance ps"
  by (simp add: stats_of_def Let_def population_variance_def double_sum_def fold_map comp_def)

lemma consensus_formula:
  assumes "2 \<le> length (valid_rankings rks)" and "distinct (map fst l2m)"
  shows "consensus (analyzeDisagreements rks l2m) = js_round2 (spec_consensus rks l2m)"
proof -
  let ?valid = "filter (\<lambda>r. isValid r \<and> parsedRanking r \<noteq> []) rks"
  let ?labels = "map fst l2m"
  have enough: "\<not> length ?valid < 2"
    using assms(1) by (simp add: valid_rankings_def)
  have tv: "fold (\<lambda>v sum. js_add sum (variance v))
              (map snd (build_variances ?labels (build_positionMatrix ?labels ?valid))) (Fin 0)
            = total_variance ?labels (valid_rankings rks)"
    by (simp add: build_variances_eq [OF assms(2)] fold_map comp_def double_sum_def
          variance_stats_of total_variance_def valid_rankings_def)
  show ?thesis
    using enough
    by (simp add: analyzeDisagreements_def Let_def tv spec_consensus_def)
qed

lemma example_distinct:
  "distinct (map fst two_labels)" "distinct (map fst three_labels)" "distinct (map fst four_labels)"
  by (simp_all add: two_labels_def three_labels_def four_labels_def js_def)

text \<open>
  Claim C5, amended. With at least two valid rankings (and a label map with distinct
  keys, as the keys of an object are, and the labels of \<open>response_labels\<close>) the consensus
  returned is the value of the specification's formula, the maximum of 0 and 1 minus
  the total variance divided by the product of the maximal variance and the number of
  labels, computed in double arithmetic and then rounded to two decimals the way the
  code does it (\<open>js_round2\<close>).
\<close>

theorem consensus_is_rounded_formula:
  assumes "2 \<le> length (valid_rankings rks)" and "distinct (map fst l2m)"
    and "response_labels rks l2m"
  shows "consensus (analyzeDisagreements rks l2m) = js_round2 (spec_consensus rks l2m)"
  using assms(1,2) by (rule consensus_formula)
text \<open>
  The theorem at a council of four with three valid rankings: the doubles give
  \<open>0.12499999999999989\<close> for the formula, and the consensus returned is 0.12.
\<close>

theorem consensus_is_rounded_formula_witness:
  "2 \<le> length (valid_rankings
     [plain_ranking (js ''m1'') [js ''Response A'', js ''Response B'', js ''Response C'', js ''Response D''],
      plain_ranking (js ''m2'') [js ''Response D'', js ''Response B'', js ''Response C'', js ''Response A''],
      plain_ranking (js ''m3'') [js ''Response A'', js ''Response C'', js ''Response D'', js ''Response B'']])
   \<and> distinct (map fst four_labels)
   \<and> response_labels
     [plain_ranking (js ''m1'') [js ''Response A'', js ''Response B'', js ''Response C'', js ''Response D''],
      plain_ranking (js ''m2'') [js ''Response D'', js ''Response B'', js ''Response C'', js ''Response A''],
      plain_ranking (js ''m3'') [js ''Response A'', js ''Response C'', js ''Response D'', js ''Response B'']]
     four_labels
   \<and> consensus (analyzeDisagreements
     [plain_ranking (js ''m1'') [js ''Response A'', js ''Response B'', js ''Response C'', js ''Response D''],
      plain_ranking (js ''m2'') [js ''Response D'', js ''Response B'', js ''Response C'', js ''Response A''],
      plain_ranking (js ''m3'') [js ''Response A'', js ''Response C'', js ''Response D'', js ''Response B'']]
     four_labels) = js_num (12 / 100)"
proof -
  let ?rks = "[plain_ranking (js ''m1'') [js ''Response A'', js ''Response B'', js ''Response C'', js ''Response D''],
      plain_ranking (js ''m2'') [js ''Response D'', js ''Response B'', js ''Response C'', js ''Response A''],
      plain_ranking (js ''m3'') [js ''Response A'', js ''Response C'', js ''Response D'', js ''Response B'']]"
  have valid: "2 \<le> length (valid_rankings ?rks)"
    by (simp add: valid_rankings_def plain_ranking_def)
  have lbls: "response_labels ?rks four_labels"
    by (simp add: spec_eval)
  have sc: "js_round2 (spec_consensus ?rks four_labels) = js_num (12 / 100)"
    by (simp add: spec_eval) (simp add: fl_eval)
  show ?thesis
    using consensus_is_rounded_formula [OF valid example_distinct(3) lbls] valid lbls
      example_distinct(3)
    unfolding sc by simp
qed

text \<open>
  The claim as stated fails where the formula has more than two decimals: for the orders
  A, B, C and B, A, C the formula gives the double nearest to 7/9 and the consensus
  returned is the double 0.78.
\<close>

theorem consensus_counterexample:
  "consensus (analyzeDisagreements
     [plain_ranking (js ''m1'') [js ''Response A'', js ''Response B'', js ''Response C''],
      plain_ranking (js ''m2'') [js ''Response B'', js ''Response A'', js ''Response C'']]
     three_labels) = js_num (78 / 100)
   \<and> spec_consensus
     [plain_ranking (js ''m1'') [js ''Response A'', js ''Response B'', js ''Response C''],
      plain_ranking (js ''m2'') [js ''Response B'', js ''Response A'', js ''Response C'']]
     three_labels = js_num (7 / 9)
   \<and> js_num (78 / 100) \<noteq> js_num (7 / 9)
   \<and> js_num (78 / 100) \<noteq> Fin (7 / 9)"
proof -
  let ?rks = "[plain_ranking (js ''m1'') [js ''Response A'', js ''Response B'', js ''Response C''],
      plain_ranking (js ''m2'') [js ''Response B'', js ''Response A'', js ''Response C'']]"
  have valid: "2 \<le> length (valid_rankings ?rks)"
    by (simp add: valid_rankings_def plain_ranking_def)
  have sc: "spec_consensus ?rks three_labels = js_num (7 / 9)"
    by (simp add: spec_eval) (simp add: fl_eval)
  have r: "js_round2 (js_num (7 / 9)) = js_num (78 / 100)"
    by (simp add: fl_eval)
  have "consensus (analyzeDisagreements ?rks three_labels) = js_num (78 / 100)"
    unfolding consensus_formula [OF valid example_distinct(2)] sc r ..
  moreover have "js_num (78 / 100) \<noteq> js_num (7 / 9)" "js_num (78 / 100) \<noteq> Fin (7 / 9)"
    by (simp_all add: fl_eval)
  ultimately show ?thesis
    using sc by simp
qed


section \<open>Labels outside the label map\<close>



















end
